theory Spec2Isabelle
  imports Complex_Main
begin

section \<open>Python numbers as the two scripts use them\<close>

text \<open>
  The raw prediction is a 32-bit float taken out of the runtime's output array
  (\<^verbatim>\<open>result[0][0][0]\<close> in stream1.py, \<^verbatim>\<open>float(y.ravel()[0])\<close> in stream11.py).
  A float is a finite number, one of the two infinities, or NaN. Only order comparisons are
  applied to it, and those are exact, so the finite values are taken as reals.
  The clamp bounds are the integer literals \<^verbatim>\<open>290\<close>, \<^verbatim>\<open>140\<close> in stream1.py and the
  float literals \<^verbatim>\<open>290.0\<close>, \<^verbatim>\<open>140.0\<close> in stream11.py; stream1.py keeps the raw value as
  the \<^verbatim>\<open>numpy.float32\<close> it is, stream11.py converts it to a Python float first. The
  kinds of number are written to a file differently, so a number carries its type.
\<close>

datatype pyfloat = Fin real | PInf | NInf | NaN

datatype pynum = PyInt int | PyFloat pyfloat | NpFloat32 pyfloat

fun as_float :: "pynum \<Rightarrow> pyfloat" where
  "as_float (PyInt i) = Fin (of_int i)"
| "as_float (PyFloat f) = f"
| "as_float (NpFloat32 f) = f"

text \<open>\<^verbatim>\<open>a < b\<close> on floats: every comparison with NaN is false.\<close>

fun fl_lt :: "pyfloat \<Rightarrow> pyfloat \<Rightarrow> bool" where
  "fl_lt NaN b = False"
| "fl_lt a NaN = False"
| "fl_lt (Fin a) (Fin b) = (a < b)"
| "fl_lt (Fin a) PInf = True"
| "fl_lt (Fin a) NInf = False"
| "fl_lt NInf (Fin b) = True"
| "fl_lt NInf PInf = True"
| "fl_lt NInf NInf = False"
| "fl_lt PInf b = False"

text \<open>\<^verbatim>\<open>a <= b\<close> on floats.\<close>

fun fl_le :: "pyfloat \<Rightarrow> pyfloat \<Rightarrow> bool" where
  "fl_le NaN b = False"
| "fl_le a NaN = False"
| "fl_le (Fin a) (Fin b) = (a \<le> b)"
| "fl_le (Fin a) PInf = True"
| "fl_le (Fin a) NInf = False"
| "fl_le NInf b = True"
| "fl_le PInf PInf = True"
| "fl_le PInf b = False"

definition py_lt :: "pynum \<Rightarrow> pynum \<Rightarrow> bool" where
  "py_lt a b = fl_lt (as_float a) (as_float b)"

text \<open>
  The built-ins \<^verbatim>\<open>min(a, b)\<close> and \<^verbatim>\<open>max(a, b)\<close> keep the first argument unless the
  second is strictly smaller (\<^verbatim>\<open>b < a\<close>), respectively strictly greater (\<^verbatim>\<open>b > a\<close>), and
  return the chosen argument itself, with its type.
\<close>

definition py_min :: "pynum \<Rightarrow> pynum \<Rightarrow> pynum" where
  "py_min a b = (if py_lt b a then b else a)"

definition py_max :: "pynum \<Rightarrow> pynum \<Rightarrow> pynum" where
  "py_max a b = (if py_lt a b then b else a)"

text \<open>stream1.py, line 92: \<^verbatim>\<open>clipped_result = max(min(predicted_mw, 290), 140)\<close>.\<close>

definition clipped_result1 :: "pyfloat \<Rightarrow> pynum" where
  "clipped_result1 predicted_mw =
     py_max (py_min (NpFloat32 predicted_mw) (PyInt 290)) (PyInt 140)"

text \<open>stream11.py, line 113: \<^verbatim>\<open>clipped_result = max(min(predicted_mw, 290.0), 140.0)\<close>.\<close>

definition clipped_result11 :: "pyfloat \<Rightarrow> pynum" where
  "clipped_result11 predicted_mw =
     py_max (py_min (PyFloat predicted_mw) (PyFloat (Fin 290))) (PyFloat (Fin 140))"

text \<open>The closed interval of the specification, \<^verbatim>\<open>140.0 <= v <= 290.0\<close>.\<close>

definition in_range :: "pynum \<Rightarrow> bool" where
  "in_range v = (fl_le (Fin 140) (as_float v) \<and> fl_le (as_float v) (Fin 290))"


section \<open>Inputs, the model handle and the clock\<close>

text \<open>
  The six slider values. A slider created with float bounds returns a float, one created
  with integer bounds (\<^verbatim>\<open>st.slider(l["hrh_t"], 390, 540, 525)\<close>) returns an integer.
\<close>

record inputs =
  steam_flow :: real
  hrh_p :: real
  hrh_t :: int
  main_p :: real
  hp_t :: int
  ambient :: real

text \<open>The slider bounds of both scripts (stream1.py lines 77-82, stream11.py lines 99-105).\<close>

definition valid_inputs :: "inputs \<Rightarrow> bool" where
  "valid_inputs i =
     (180 \<le> steam_flow i \<and> steam_flow i \<le> 910 \<and>
      12 / 10 \<le> hrh_p i \<and> hrh_p i \<le> 439 / 100 \<and>
      390 \<le> hrh_t i \<and> hrh_t i \<le> 540 \<and>
      7 \<le> main_p i \<and> main_p i \<le> 1739 / 100 \<and>
      390 \<le> hp_t i \<and> hp_t i \<le> 540 \<and>
      - 4 \<le> ambient i \<and> ambient i \<le> 50)"

text \<open>The slider defaults.\<close>

definition default_inputs :: inputs where
  "default_inputs =
     \<lparr>steam_flow = 850, hrh_p = 4, hrh_t = 525, main_p = 16, hp_t = 538, ambient = 25\<rparr>"

text \<open>
  The regression model is a file the scripts only load and call; what it computes is not
  part of the repository. A loaded session is the function it computes on the six values
  (the conversion of the values to 32-bit floats happens inside it), together with the
  identity of the session object, which tells one loaded object from another.
\<close>

record session =
  sid :: nat
  run_model :: "inputs \<Rightarrow> pyfloat"

record datetime =
  year :: nat
  month :: nat
  day :: nat
  hour :: nat
  minute :: nat
  second :: nat

text \<open>
  The values a \<^verbatim>\<open>datetime\<close> object can hold, from the year 1000 on, where \<^verbatim>\<open>%Y\<close> gives
  four digits on every platform.
\<close>

definition valid_datetime :: "datetime \<Rightarrow> bool" where
  "valid_datetime d =
     (1000 \<le> year d \<and> year d \<le> 9999 \<and> 1 \<le> month d \<and> month d \<le> 12 \<and>
      1 \<le> day d \<and> day d \<le> 31 \<and> hour d \<le> 23 \<and> minute d \<le> 59 \<and> second d \<le> 59)"

definition digit_char :: "nat \<Rightarrow> char" where
  "digit_char n = ''0123456789'' ! (n mod 10)"

text \<open>The decimal text of a natural number and of an integer, as \<^verbatim>\<open>str\<close> gives it.\<close>

function str_nat :: "nat \<Rightarrow> string" where
  "str_nat n = (if n < 10 then [digit_char n] else str_nat (n div 10) @ [digit_char (n mod 10)])"
  by pat_completeness auto
termination
  by (relation "measure id") auto

declare str_nat.simps [simp del]

definition str_int :: "int \<Rightarrow> string" where
  "str_int i = (if i < 0 then CHR ''-'' # str_nat (nat (- i)) else str_nat (nat i))"

text \<open>The decimal text of \<open>n\<close>, filled with zeros on the left up to \<open>w\<close> characters.\<close>

definition zero_padded :: "nat \<Rightarrow> nat \<Rightarrow> string" where
  "zero_padded w n = replicate (w - length (str_nat n)) (CHR ''0'') @ str_nat n"

text \<open>The directives of \<^verbatim>\<open>strftime\<close> that the scripts use; any other character is kept.\<close>

definition directive :: "char \<Rightarrow> datetime \<Rightarrow> string" where
  "directive c d =
     (if c = CHR ''Y'' then zero_padded 4 (year d)
      else if c = CHR ''m'' then zero_padded 2 (month d)
      else if c = CHR ''d'' then zero_padded 2 (day d)
      else if c = CHR ''H'' then zero_padded 2 (hour d)
      else if c = CHR ''M'' then zero_padded 2 (minute d)
      else if c = CHR ''S'' then zero_padded 2 (second d)
      else [CHR ''%'', c])"

fun strftime :: "string \<Rightarrow> datetime \<Rightarrow> string" where
  "strftime [] d = []"
| "strftime [c] d = [c]"
| "strftime (c # e # rest) d =
     (if c = CHR ''%'' then directive e d @ strftime rest d else c # strftime (e # rest) d)"

text \<open>
  Both scripts: \<^verbatim>\<open>datetime.datetime.now().strftime("%Y-%m-%d %H:%M:%S")\<close>; the clock's
  reading is an argument of the model.
\<close>

definition timestamp :: "datetime \<Rightarrow> string" where
  "timestamp now = strftime ''%Y-%m-%d %H:%M:%S'' now"

definition is_digit :: "char \<Rightarrow> bool" where
  "is_digit c = (c \<in> set ''0123456789'')"

text \<open>
  A text has the shape of a pattern when it has a digit wherever the pattern has \<open>D\<close> and the
  pattern's own character everywhere else.
\<close>

fun has_shape :: "string \<Rightarrow> string \<Rightarrow> bool" where
  "has_shape [] [] = True"
| "has_shape (p # ps) (c # cs) = ((if p = CHR ''D'' then is_digit c else c = p) \<and> has_shape ps cs)"
| "has_shape ps cs = False"

section \<open>The log file\<close>

text \<open>
  What the scripts hand to a CSV writer is a row of values, each a text or a number.
\<close>

datatype cell = CStr string | CNum pynum

type_synonym row = "cell list"

text \<open>
  What a CSV file holds is rows of fields, and a field is text. The characters of a field are
  kept when the model can compute them: names, timestamps, the decimal text of an integer,
  the fixed words for NaN and the infinities. The shortest decimal text that identifies a
  finite float is not computed; a field holding it is kept as the text of the 64-bit float
  \<open>x\<close> (\<^verbatim>\<open>repr\<close> of a Python float, also what pandas writes for a \<^verbatim>\<open>float64\<close> column) or
  as the text of the 32-bit float \<open>x\<close> (what pandas writes for a \<^verbatim>\<open>float32\<close> column). Lines,
  commas and quoting are the business of the CSV writer and reader on both sides and are
  not modelled: a file is the list of its rows, and a blank line is the row without fields.
\<close>

datatype ftext = Chars string | Float64_text real | Float32_text real

type_synonym csv_file = "ftext list list"

text \<open>The text of a float; \<open>na\<close> is what the writer puts for NaN.\<close>

fun float64_field :: "string \<Rightarrow> pyfloat \<Rightarrow> ftext" where
  "float64_field na (Fin x) = Float64_text x"
| "float64_field na PInf = Chars ''inf''"
| "float64_field na NInf = Chars ''-inf''"
| "float64_field na NaN = Chars na"

fun float32_field :: "string \<Rightarrow> pyfloat \<Rightarrow> ftext" where
  "float32_field na (Fin x) = Float32_text x"
| "float32_field na PInf = Chars ''inf''"
| "float32_field na NInf = Chars ''-inf''"
| "float32_field na NaN = Chars na"

text \<open>
  \<^verbatim>\<open>csv.writer\<close> (stream11.py) writes a text as it is and any other value as \<^verbatim>\<open>str\<close> gives
  it; NaN becomes \<^verbatim>\<open>nan\<close>.
\<close>

fun csv_writer_field :: "cell \<Rightarrow> ftext" where
  "csv_writer_field (CStr s) = Chars s"
| "csv_writer_field (CNum (PyInt i)) = Chars (str_int i)"
| "csv_writer_field (CNum (PyFloat f)) = float64_field ''nan'' f"
| "csv_writer_field (CNum (NpFloat32 f)) = float32_field ''nan'' f"

text \<open>
  \<^verbatim>\<open>DataFrame.to_csv\<close> (stream1.py) writes each column by its type, and a missing value,
  NaN included, as the empty text.
\<close>

fun pandas_field :: "cell \<Rightarrow> ftext" where
  "pandas_field (CStr s) = Chars s"
| "pandas_field (CNum (PyInt i)) = Chars (str_int i)"
| "pandas_field (CNum (PyFloat f)) = float64_field [] f"
| "pandas_field (CNum (NpFloat32 f)) = float32_field [] f"

text \<open>stream11.py line 127, the header written by hand.\<close>

definition header_row :: row where
  "header_row = map CStr [''Time'', ''Steam Flow'', ''HRH P'', ''HRH T'', ''Main Steam P'',
     ''HP Temp'', ''Ambient'', ''Predicted MW'']"

text \<open>The header as it stands in the file.\<close>

definition header_fields :: "ftext list" where
  "header_fields = map Chars [''Time'', ''Steam Flow'', ''HRH P'', ''HRH T'', ''Main Steam P'',
     ''HP Temp'', ''Ambient'', ''Predicted MW'']"

text \<open>stream11.py lines 118-121, the list \<^verbatim>\<open>row\<close>.\<close>

definition log_row :: "string \<Rightarrow> inputs \<Rightarrow> pynum \<Rightarrow> row" where
  "log_row time i clipped_result =
     [CStr time, CNum (PyFloat (Fin (steam_flow i))), CNum (PyFloat (Fin (hrh_p i))),
      CNum (PyInt (hrh_t i)), CNum (PyFloat (Fin (main_p i))), CNum (PyInt (hp_t i)),
      CNum (PyFloat (Fin (ambient i))), CNum clipped_result]"

text \<open>
  stream1.py lines 97-102, the dictionary \<^verbatim>\<open>log\<close>, in insertion order. The one-row data
  frame built from it has the keys as column names and the values as its row; each column
  has the type of its one value.
\<close>

definition log_dict :: "string \<Rightarrow> inputs \<Rightarrow> pynum \<Rightarrow> (string \<times> cell) list" where
  "log_dict time i clipped_result =
     [(''Time'', CStr time),
      (''Steam Flow'', CNum (PyFloat (Fin (steam_flow i)))),
      (''HRH P'', CNum (PyFloat (Fin (hrh_p i)))),
      (''HRH T'', CNum (PyInt (hrh_t i))),
      (''Main Steam P'', CNum (PyFloat (Fin (main_p i)))),
      (''HP Temp'', CNum (PyInt (hp_t i))),
      (''Ambient'', CNum (PyFloat (Fin (ambient i)))),
      (''Predicted MW'', CNum clipped_result)]"

definition df_columns :: "(string \<times> cell) list \<Rightarrow> ftext list" where
  "df_columns d = map (\<lambda>kv. Chars (fst kv)) d"

definition df_values :: "(string \<times> cell) list \<Rightarrow> row" where
  "df_values d = map snd d"

text \<open>
  The characters of a row in the file: the fields with commas between them. \<open>repr64\<close> and
  \<open>repr32\<close> stand for the decimal texts of finite floats that the model does not compute.
  No field written by the scripts needs quoting.
\<close>

fun field_chars :: "(real \<Rightarrow> string) \<Rightarrow> (real \<Rightarrow> string) \<Rightarrow> ftext \<Rightarrow> string" where
  "field_chars repr64 repr32 (Chars s) = s"
| "field_chars repr64 repr32 (Float64_text x) = repr64 x"
| "field_chars repr64 repr32 (Float32_text x) = repr32 x"

fun join_fields :: "string list \<Rightarrow> string" where
  "join_fields [] = []"
| "join_fields [f] = f"
| "join_fields (f # g # fs) = f @ '','' @ join_fields (g # fs)"

definition csv_line :: "(real \<Rightarrow> string) \<Rightarrow> (real \<Rightarrow> string) \<Rightarrow> ftext list \<Rightarrow> string" where
  "csv_line repr64 repr32 r = join_fields (map (field_chars repr64 repr32) r)"

text \<open>A value with its number read as a Python float, which forgets its type.\<close>

fun numeric_cell :: "cell \<Rightarrow> cell" where
  "numeric_cell (CStr s) = CStr s"
| "numeric_cell (CNum n) = CNum (PyFloat (as_float n))"

text \<open>The value of a row under a column name of the header.\<close>

definition field :: "string \<Rightarrow> row \<Rightarrow> cell option" where
  "field name r = map_of (zip header_row r) (CStr name)"

text \<open>Whether a value is a number inside the interval from 140 to 290.\<close>

fun cell_in_range :: "cell option \<Rightarrow> bool" where
  "cell_in_range (Some (CNum n)) = in_range n"
| "cell_in_range c = False"

section \<open>Reading a CSV file with pandas\<close>

text \<open>
  \<^verbatim>\<open>pd.read_csv\<close> turns every field into a number where it can. The parts of its parser that
  are modelled: the words it takes for a missing value, decimal integers with an optional
  sign, decimal numbers with a point, and \<^verbatim>\<open>inf\<close>. Exponents, other spellings of
  infinity, surrounding blanks, booleans and integers beyond 64 bits are not modelled.
\<close>

definition digit_val :: "char \<Rightarrow> nat" where
  "digit_val c = of_char c - 48"

definition digits_val :: "string \<Rightarrow> nat" where
  "digits_val s = foldl (\<lambda>a c. 10 * a + digit_val c) 0 s"

definition parse_nat :: "string \<Rightarrow> nat option" where
  "parse_nat s = (if s \<noteq> [] \<and> list_all is_digit s then Some (digits_val s) else None)"

definition parse_int :: "string \<Rightarrow> int option" where
  "parse_int s =
     (case s of
        [] \<Rightarrow> None
      | c # r \<Rightarrow>
          if c = CHR ''-'' then map_option (\<lambda>n. - int n) (parse_nat r)
          else if c = CHR ''+'' then map_option int (parse_nat r)
          else map_option int (parse_nat s))"

text \<open>The text without its sign, and whether the sign was a minus.\<close>

definition unsigned :: "string \<Rightarrow> bool \<times> string" where
  "unsigned s =
     (case s of
        [] \<Rightarrow> (False, [])
      | c # r \<Rightarrow> if c = CHR ''-'' then (True, r) else if c = CHR ''+'' then (False, r)
                 else (False, s))"

definition parse_decimal :: "string \<Rightarrow> real option" where
  "parse_decimal s =
     (case unsigned s of
        (neg, body) \<Rightarrow>
          (let ip = takeWhile (\<lambda>c. c \<noteq> CHR ''.'') body;
               rest = dropWhile (\<lambda>c. c \<noteq> CHR ''.'') body
           in case rest of
                [] \<Rightarrow> None
              | dot # fp \<Rightarrow>
                  if list_all is_digit ip \<and> list_all is_digit fp \<and> \<not> (ip = [] \<and> fp = [])
                  then Some ((if neg then - 1 else 1) *
                             (real (digits_val ip) + real (digits_val fp) / 10 ^ length fp))
                  else None))"

text \<open>The texts pandas reads as a missing value by default.\<close>

definition na_values :: "string list" where
  "na_values = [[], ''#N/A'', ''#N/A N/A'', ''#NA'', ''-1.#IND'', ''-1.#QNAN'', ''-NaN'',
     ''-nan'', ''1.#IND'', ''1.#QNAN'', ''<NA>'', ''N/A'', ''NA'', ''NULL'', ''NaN'', ''None'',
     ''n/a'', ''nan'', ''null'']"

text \<open>What a field is read as on its own.\<close>

datatype parsed = PInt int | PFlt pyfloat | PFlt32 real | PNA | PText

definition classify_chars :: "string \<Rightarrow> parsed" where
  "classify_chars s =
     (if s \<in> set na_values then PNA
      else case parse_int s of
             Some i \<Rightarrow> PInt i
           | None \<Rightarrow>
               (case parse_decimal s of
                  Some x \<Rightarrow> PFlt (Fin x)
                | None \<Rightarrow>
                    if s = ''inf'' then PFlt PInf
                    else if s = ''-inf'' then PFlt NInf
                    else PText))"

fun classify :: "ftext \<Rightarrow> parsed" where
  "classify (Chars s) = classify_chars s"
| "classify (Float64_text x) = PFlt (Fin x)"
| "classify (Float32_text x) = PFlt32 x"

fun is_pint :: "parsed \<Rightarrow> bool" where
  "is_pint (PInt i) = True"
| "is_pint p = False"

fun is_pnum :: "parsed \<Rightarrow> bool" where
  "is_pnum PText = False"
| "is_pnum p = True"

text \<open>
  The type pandas gives a column: integers when every field is an integer, floats when
  every field is a number or missing, and otherwise (also for a column without records)
  Python objects.
\<close>

datatype dtype = DInt | DFloat | DObject

definition col_dtype :: "parsed list \<Rightarrow> dtype" where
  "col_dtype ps =
     (if ps = [] then DObject
      else if list_all is_pint ps then DInt
      else if list_all is_pnum ps then DFloat
      else DObject)"

text \<open>
  A value of a data frame read from a file. The float parsed from the text of a 32-bit
  float \<open>x\<close> is the 64-bit float nearest to that text: close to \<open>x\<close>, and in general not
  \<open>x\<close>. It is kept as \<open>F64_from32 x\<close>.
\<close>

datatype dfval = I64 int | F64 pyfloat | F64_from32 real | Obj ftext

fun convert :: "dtype \<Rightarrow> ftext \<Rightarrow> dfval" where
  "convert DInt t = (case classify t of PInt i \<Rightarrow> I64 i | _ \<Rightarrow> Obj t)"
| "convert DFloat t =
     (case classify t of
        PInt i \<Rightarrow> F64 (Fin (of_int i))
      | PFlt f \<Rightarrow> F64 f
      | PFlt32 x \<Rightarrow> F64_from32 x
      | PNA \<Rightarrow> F64 NaN
      | PText \<Rightarrow> Obj t)"
| "convert DObject t = (case classify t of PNA \<Rightarrow> F64 NaN | _ \<Rightarrow> Obj t)"

text \<open>
  What \<^verbatim>\<open>pd.read_csv\<close> returns: the column names, the records, and the leading fields of
  each record that pandas takes as row labels when the records are longer than the header.
\<close>

record table =
  columns :: "ftext list"
  index_fields :: "ftext list list"
  records :: "dfval list list"

datatype exn = OSError | FileNotFoundError | EmptyDataError | ParserError | LoadError

text \<open>A record shorter than expected is filled up with empty fields.\<close>

definition fill_record :: "nat \<Rightarrow> ftext list \<Rightarrow> ftext list" where
  "fill_record n r = r @ replicate (n - length r) (Chars [])"

text \<open>The type of each of the \<open>n\<close> columns of the records.\<close>

definition dtypes :: "nat \<Rightarrow> ftext list list \<Rightarrow> dtype list" where
  "dtypes n body = map (\<lambda>j. col_dtype (map (\<lambda>r. classify (r ! j)) body)) [0..<n]"

text \<open>
  \<^verbatim>\<open>pd.read_csv\<close> with its defaults. Blank lines are skipped and the first line left names
  the columns; a file without one raises \<^verbatim>\<open>EmptyDataError\<close>. The number of fields expected
  in a record is that of the header or of the first record, whichever is larger; a later
  record with more fields raises \<^verbatim>\<open>ParserError\<close>, one with fewer is filled up. Fields in
  excess of the header are taken from the front of each record as row labels.
\<close>

definition read_csv :: "csv_file \<Rightarrow> exn + table" where
  "read_csv f =
     (case filter (\<lambda>r. r \<noteq> []) f of
        [] \<Rightarrow> Inl EmptyDataError
      | h # rs \<Rightarrow>
          (let n = length h;
               e = (case rs of [] \<Rightarrow> n | r # _ \<Rightarrow> max n (length r))
           in if list_ex (\<lambda>r. e < length r) rs then Inl ParserError
              else (let padded = map (fill_record e) rs;
                        body = map (drop (e - n)) padded
                    in Inr \<lparr>columns = h, index_fields = map (take (e - n)) padded,
                            records = map (\<lambda>r. map (\<lambda>(d, t). convert d t) (zip (dtypes n body) r))
                                        body\<rparr>)))"

text \<open>
  A value that was written, as it comes back when no precision is lost: a text as the same
  text, an integer as an integer, a float as the same float; a 32-bit float comes back as
  the float parsed from its text.
\<close>

fun exact_value :: "cell \<Rightarrow> dfval" where
  "exact_value (CStr s) = Obj (Chars s)"
| "exact_value (CNum (PyInt i)) = I64 i"
| "exact_value (CNum (PyFloat f)) = F64 f"
| "exact_value (CNum (NpFloat32 (Fin x))) = F64_from32 x"
| "exact_value (CNum (NpFloat32 f)) = F64 f"


section \<open>The state the scripts run in\<close>

text \<open>
  The files on disk, whether the operating system lets the process write and remove files,
  the two caches that stream11.py asks Streamlit to keep (\<^verbatim>\<open>st.cache_resource\<close> on
  \<^verbatim>\<open>get_session\<close>, \<^verbatim>\<open>st.cache_data\<close> on \<^verbatim>\<open>load_log\<close>, both keyed by the path argument and
  never invalidated), and two counters that record how often a model file was loaded and
  how often a file was opened for writing.
\<close>

record world =
  files :: "string \<rightharpoonup> csv_file"
  write_ok :: bool
  remove_ok :: bool
  model_files :: "string \<rightharpoonup> (inputs \<Rightarrow> pyfloat)"
  session_cache :: "string \<rightharpoonup> session"
  log_cache :: "string \<rightharpoonup> table option"
  model_loads :: nat
  log_writes :: nat

text \<open>What a block of the script puts on the page.\<close>

datatype ui =
    Result_markdown pyfloat
  | Dataframe table
  | Download_button table
  | Info_no_predictions
  | Success_cleared
  | Info_no_log_file
  | Warning_could_not_write exn
  | Warning_could_not_clear exn

text \<open>
  The outcome of a block: what was shown, the exception that left the block uncaught (it
  ends the script run), and the state afterwards.
\<close>

record outcome =
  shown :: "ui list"
  raised :: "exn option"
  world_after :: world

definition LOG_PATH :: string where
  "LOG_PATH = ''unit2_log.csv''"

definition MODEL_PATH :: string where
  "MODEL_PATH = ''unit2mwbig_model.onnx''"

text \<open>\<^verbatim>\<open>os.path.exists(path)\<close>.\<close>

definition path_exists :: "world \<Rightarrow> string \<Rightarrow> bool" where
  "path_exists w path = (files w path \<noteq> None)"

text \<open>
  Opening \<open>path\<close> in append mode and writing rows: the rows go after what the file holds,
  and a missing file is created. A refused open raises and leaves the files as they are.
\<close>

definition append_rows :: "string \<Rightarrow> ftext list list \<Rightarrow> world \<Rightarrow> exn option \<times> world" where
  "append_rows path rs w =
     (if write_ok w
      then (None, w\<lparr>files := (files w)(path \<mapsto> (case files w path of None \<Rightarrow> [] | Some old \<Rightarrow> old) @ rs),
                    log_writes := log_writes w + 1\<rparr>)
      else (Some OSError, w\<lparr>log_writes := log_writes w + 1\<rparr>))"

text \<open>Opening \<open>path\<close> in write mode (the default of \<^verbatim>\<open>to_csv\<close>): the rows replace the file.\<close>

definition write_rows :: "string \<Rightarrow> ftext list list \<Rightarrow> world \<Rightarrow> exn option \<times> world" where
  "write_rows path rs w =
     (if write_ok w
      then (None, w\<lparr>files := (files w)(path \<mapsto> rs), log_writes := log_writes w + 1\<rparr>)
      else (Some OSError, w\<lparr>log_writes := log_writes w + 1\<rparr>))"

text \<open>\<^verbatim>\<open>os.remove(path)\<close>.\<close>

definition os_remove :: "string \<Rightarrow> world \<Rightarrow> exn option \<times> world" where
  "os_remove path w =
     (if files w path = None then (Some FileNotFoundError, w)
      else if remove_ok w then (None, w\<lparr>files := (files w)(path := None)\<rparr>)
      else (Some OSError, w))"

section \<open>Loading the model\<close>

text \<open>
  \<^verbatim>\<open>ort.InferenceSession(path, ...)\<close> reads the model file and builds a new session object;
  it raises when the file is missing or cannot be read as a model. The options passed to it
  (optimisation level, thread counts, memory arena) do not change what the model computes.
\<close>

definition inference_session :: "string \<Rightarrow> world \<Rightarrow> (exn + session) \<times> world" where
  "inference_session path w =
     (case model_files w path of
        None \<Rightarrow> (Inl LoadError, w\<lparr>model_loads := model_loads w + 1\<rparr>)
      | Some m \<Rightarrow> (Inr \<lparr>sid = model_loads w, run_model = m\<rparr>,
                   w\<lparr>model_loads := model_loads w + 1\<rparr>))"

text \<open>stream1.py lines 71-73: the session is built at top level, on every run of the script.\<close>

definition session1 :: "world \<Rightarrow> (exn + session) \<times> world" where
  "session1 w = inference_session MODEL_PATH w"

text \<open>
  stream11.py lines 75-89: \<^verbatim>\<open>get_session\<close> under \<^verbatim>\<open>@st.cache_resource\<close>. The decorator
  returns the stored object when the argument was seen before, and otherwise runs the body
  and stores what it returns; a call that raises stores nothing.
\<close>

definition get_session :: "string \<Rightarrow> world \<Rightarrow> (exn + session) \<times> world" where
  "get_session path w =
     (case session_cache w path of
        Some s \<Rightarrow> (Inr s, w)
      | None \<Rightarrow>
          (case inference_session path w of
             (Inl e, w') \<Rightarrow> (Inl e, w')
           | (Inr s, w') \<Rightarrow> (Inr s, w'\<lparr>session_cache := (session_cache w')(path \<mapsto> s)\<rparr>)))"

text \<open>Calling \<^verbatim>\<open>get_session(path)\<close> again and again: the results, oldest first, and the state.\<close>

fun get_session_times :: "nat \<Rightarrow> string \<Rightarrow> world \<Rightarrow> (exn + session) list \<times> world" where
  "get_session_times 0 path w = ([], w)"
| "get_session_times (Suc n) path w =
     (case get_session path w of
        (r, w') \<Rightarrow> (case get_session_times n path w' of (rs, w'') \<Rightarrow> (r # rs, w'')))"

text \<open>Two states hold the same loaded sessions, and no model file was loaded in between.\<close>

definition same_sessions :: "world \<Rightarrow> world \<Rightarrow> bool" where
  "same_sessions w w' = (session_cache w' = session_cache w \<and> model_loads w' = model_loads w)"

section \<open>The prediction block\<close>

text \<open>The predictor alone: call the model, clamp (stream1.py 90-92, stream11.py 111-113).\<close>

definition predict1 :: "session \<Rightarrow> inputs \<Rightarrow> pynum" where
  "predict1 sess i = clipped_result1 (run_model sess i)"

definition predict11 :: "session \<Rightarrow> inputs \<Rightarrow> pynum" where
  "predict11 sess i = clipped_result11 (run_model sess i)"

text \<open>
  stream1.py lines 85-107. The result is shown with the format \<^verbatim>\<open>{clipped_result:.2f}\<close>,
  which formats the number's float value whatever its type. The row is written through a
  one-row data frame: appended without header when the file exists, written with header
  otherwise. Nothing catches an exception of \<^verbatim>\<open>to_csv\<close>.
\<close>

definition predict_block1 :: "session \<Rightarrow> inputs \<Rightarrow> datetime \<Rightarrow> world \<Rightarrow> outcome" where
  "predict_block1 sess i now w =
     (let clipped_result = predict1 sess i;
          page = [Result_markdown (as_float clipped_result)];
          d = log_dict (timestamp now) i clipped_result;
          written = (if path_exists w LOG_PATH
                     then append_rows LOG_PATH [map pandas_field (df_values d)] w
                     else write_rows LOG_PATH
                            [df_columns d, map pandas_field (df_values d)] w)
      in \<lparr>shown = page, raised = fst written, world_after = snd written\<rparr>)"

text \<open>
  stream11.py lines 109-130. The file is opened in append mode; the header goes first when
  the file did not exist before the open. An exception of the open or of the writes is
  caught and shown as a warning.
\<close>

definition predict_block11 :: "session \<Rightarrow> inputs \<Rightarrow> datetime \<Rightarrow> world \<Rightarrow> outcome" where
  "predict_block11 sess i now w =
     (let clipped_result = predict11 sess i;
          page = [Result_markdown (as_float clipped_result)];
          r = log_row (timestamp now) i clipped_result;
          file_exists = path_exists w LOG_PATH;
          written = append_rows LOG_PATH
                      (map (map csv_writer_field)
                         ((if \<not> file_exists then [header_row] else []) @ [r])) w
      in case fst written of
           None \<Rightarrow> \<lparr>shown = page, raised = None, world_after = snd written\<rparr>
         | Some e \<Rightarrow> \<lparr>shown = page @ [Warning_could_not_write e], raised = None,
                       world_after = snd written\<rparr>)"

text \<open>A prediction request: the session in use, the slider values and the clock's reading.\<close>

type_synonym request = "session \<times> inputs \<times> datetime"

text \<open>The row of values a request hands to the writer, in either script.\<close>

definition request_row1 :: "request \<Rightarrow> row" where
  "request_row1 q = (case q of (sess, i, now) \<Rightarrow> df_values (log_dict (timestamp now) i (predict1 sess i)))"

definition request_row11 :: "request \<Rightarrow> row" where
  "request_row11 q = (case q of (sess, i, now) \<Rightarrow> log_row (timestamp now) i (predict11 sess i))"



text \<open>One prediction after the other, each in its own run of the script.\<close>

fun predictions1 :: "request list \<Rightarrow> world \<Rightarrow> world" where
  "predictions1 [] w = w"
| "predictions1 (q # qs) w =
     (case q of (sess, i, now) \<Rightarrow> predictions1 qs (world_after (predict_block1 sess i now w)))"

fun predictions11 :: "request list \<Rightarrow> world \<Rightarrow> world" where
  "predictions11 [] w = w"
| "predictions11 (q # qs) w =
     (case q of (sess, i, now) \<Rightarrow> predictions11 qs (world_after (predict_block11 sess i now w)))"

section \<open>The log viewer\<close>

text \<open>
  stream1.py lines 111-118, with the checkbox ticked: the file is read when it exists, and an
  exception of \<^verbatim>\<open>pd.read_csv\<close> is not caught.
\<close>

definition log_viewer1 :: "world \<Rightarrow> outcome" where
  "log_viewer1 w =
     (case files w LOG_PATH of
        None \<Rightarrow> \<lparr>shown = [Info_no_predictions], raised = None, world_after = w\<rparr>
      | Some f \<Rightarrow>
          (case read_csv f of
             Inl e \<Rightarrow> \<lparr>shown = [], raised = Some e, world_after = w\<rparr>
           | Inr df_log \<Rightarrow> \<lparr>shown = [Dataframe df_log, Download_button df_log], raised = None,
                            world_after = w\<rparr>))"

text \<open>stream11.py lines 137-144, the body of \<^verbatim>\<open>load_log\<close>.\<close>

definition load_log_body :: "string \<Rightarrow> world \<Rightarrow> table option" where
  "load_log_body path w =
     (case files w path of
        None \<Rightarrow> None
      | Some f \<Rightarrow> (case read_csv f of Inl e \<Rightarrow> None | Inr df \<Rightarrow> Some df))"

text \<open>
  stream11.py line 136: \<^verbatim>\<open>load_log\<close> as the script calls it, under \<^verbatim>\<open>@st.cache_data\<close>. The
  value returned for a path, \<^verbatim>\<open>None\<close> included, is stored and returned again on every later
  call with that path.
\<close>

definition load_log :: "string \<Rightarrow> world \<Rightarrow> table option \<times> world" where
  "load_log path w =
     (case log_cache w path of
        Some stored \<Rightarrow> (stored, w)
      | None \<Rightarrow> (let r = load_log_body path w in (r, w\<lparr>log_cache := (log_cache w)(path \<mapsto> r)\<rparr>)))"

text \<open>stream11.py lines 146-153, with the checkbox ticked.\<close>

definition log_viewer11 :: "world \<Rightarrow> outcome" where
  "log_viewer11 w =
     (case load_log LOG_PATH w of
        (None, w') \<Rightarrow> \<lparr>shown = [Info_no_predictions], raised = None, world_after = w'\<rparr>
      | (Some df_log, w') \<Rightarrow> \<lparr>shown = [Dataframe df_log, Download_button df_log], raised = None,
                               world_after = w'\<rparr>)"

section \<open>Clearing the log\<close>

text \<open>
  stream1.py lines 121-124, with the button pressed: nothing is shown when there is no file,
  and an exception of \<^verbatim>\<open>os.remove\<close> is not caught.
\<close>

definition clear_block1 :: "world \<Rightarrow> outcome" where
  "clear_block1 w =
     (if path_exists w LOG_PATH
      then (case os_remove LOG_PATH w of
              (None, w') \<Rightarrow> \<lparr>shown = [Success_cleared], raised = None, world_after = w'\<rparr>
            | (Some e, w') \<Rightarrow> \<lparr>shown = [], raised = Some e, world_after = w'\<rparr>)
      else \<lparr>shown = [], raised = None, world_after = w\<rparr>)"

text \<open>stream11.py lines 156-164, with the button pressed.\<close>

definition clear_block11 :: "world \<Rightarrow> outcome" where
  "clear_block11 w =
     (if path_exists w LOG_PATH
      then (case os_remove LOG_PATH w of
              (None, w') \<Rightarrow> \<lparr>shown = [Success_cleared], raised = None, world_after = w'\<rparr>
            | (Some e, w') \<Rightarrow> \<lparr>shown = [Warning_could_not_clear e], raised = None,
                               world_after = w'\<rparr>)
      else \<lparr>shown = [Info_no_log_file], raised = None, world_after = w\<rparr>)"

section \<open>A run of the whole script\<close>

text \<open>
  Streamlit runs the script from top to bottom on every interaction. At most one button is
  the one that was pressed; the checkbox and the sliders keep their values.
\<close>

datatype trigger = Predict | Clear | Other

record event =
  pressed :: trigger
  show_log :: bool
  sliders :: inputs
  clock :: datetime

definition nothing :: "world \<Rightarrow> outcome" where
  "nothing w = \<lparr>shown = [], raised = None, world_after = w\<rparr>"

text \<open>One block after another: an uncaught exception ends the run.\<close>

definition then_run :: "outcome \<Rightarrow> (world \<Rightarrow> outcome) \<Rightarrow> outcome" where
  "then_run a f =
     (case raised a of
        Some e \<Rightarrow> a
      | None \<Rightarrow> (let b = f (world_after a)
                 in \<lparr>shown = shown a @ shown b, raised = raised b, world_after = world_after b\<rparr>))"

definition script1 :: "event \<Rightarrow> world \<Rightarrow> outcome" where
  "script1 ev w =
     (case session1 w of
        (Inl e, w') \<Rightarrow> \<lparr>shown = [], raised = Some e, world_after = w'\<rparr>
      | (Inr sess, w') \<Rightarrow>
          then_run
            (then_run
               (if pressed ev = Predict then predict_block1 sess (sliders ev) (clock ev) w'
                else nothing w')
               (\<lambda>v. if show_log ev then log_viewer1 v else nothing v))
            (\<lambda>v. if pressed ev = Clear then clear_block1 v else nothing v))"

definition script11 :: "event \<Rightarrow> world \<Rightarrow> outcome" where
  "script11 ev w =
     (case get_session MODEL_PATH w of
        (Inl e, w') \<Rightarrow> \<lparr>shown = [], raised = Some e, world_after = w'\<rparr>
      | (Inr sess, w') \<Rightarrow>
          then_run
            (then_run
               (if pressed ev = Predict then predict_block11 sess (sliders ev) (clock ev) w'
                else nothing w')
               (\<lambda>v. if show_log ev then log_viewer11 v else nothing v))
            (\<lambda>v. if pressed ev = Clear then clear_block11 v else nothing v))"

section \<open>Concrete states and models for the worked examples\<close>

definition empty_world :: world where
  "empty_world =
     \<lparr>files = Map.empty, write_ok = True, remove_ok = True, model_files = Map.empty,
      session_cache = Map.empty, log_cache = Map.empty, model_loads = 0, log_writes = 0\<rparr>"

text \<open>A session whose model answers every input with the same raw value.\<close>

definition constant_session :: "pyfloat \<Rightarrow> session" where
  "constant_session y = \<lparr>sid = 0, run_model = (\<lambda>i. y)\<rparr>"

definition noon :: datetime where
  "noon = \<lparr>year = 2025, month = 8, day = 20, hour = 12, minute = 0, second = 5\<rparr>"

text \<open>A log file of zero bytes.\<close>

definition empty_log_world :: world where
  "empty_log_world = empty_world\<lparr>files := [LOG_PATH \<mapsto> []]\<rparr>"

text \<open>A log file that holds the header and no record.\<close>

definition header_only_world :: world where
  "header_only_world = empty_world\<lparr>files := [LOG_PATH \<mapsto> [header_fields]]\<rparr>"

text \<open>The same, and the operating system refuses to remove the file.\<close>

definition unremovable_world :: world where
  "unremovable_world = header_only_world\<lparr>remove_ok := False\<rparr>"

text \<open>No log file, and the operating system refuses to open one for writing.\<close>

definition readonly_world :: world where
  "readonly_world = empty_world\<lparr>write_ok := False\<rparr>"

text \<open>The model file is on disk and nothing is cached yet.\<close>

definition model_world :: world where
  "model_world = empty_world\<lparr>model_files := [MODEL_PATH \<mapsto> (\<lambda>i. Fin 250)]\<rparr>"

text \<open>stream11.py: one prediction, then the log is viewed, then it is cleared.\<close>

definition viewed_then_cleared :: world where
  "viewed_then_cleared =
     world_after (clear_block11 (world_after (log_viewer11 (world_after
       (predict_block11 (constant_session (Fin 250)) default_inputs noon empty_world)))))"

text \<open>The state after the first call of \<^verbatim>\<open>get_session\<close> in \<open>model_world\<close>.\<close>

definition loaded_world :: world where
  "loaded_world = model_world\<lparr>model_loads := 1,
     session_cache := [MODEL_PATH \<mapsto> constant_session (Fin 250)]\<rparr>"


text \<open>What the timestamp and the default inputs of a record written at \<open>noon\<close> read back as.\<close>

definition noon_inputs_read :: "dfval list" where
  "noon_inputs_read =
     [Obj (Chars ''2025-08-20 12:00:05''), F64 (Fin 850), F64 (Fin 4), I64 525, F64 (Fin 16),
      I64 538, F64 (Fin 25)]"

text \<open>The same as they stand in the file.\<close>

definition noon_inputs_fields :: "ftext list" where
  "noon_inputs_fields =
     [Chars ''2025-08-20 12:00:05'', Float64_text 850, Float64_text 4, Chars ''525'',
      Float64_text 16, Chars ''538'', Float64_text 25]"

definition two_requests :: "request list" where
  "two_requests = [(constant_session (Fin 250), default_inputs, noon),
                   (constant_session (Fin 310), default_inputs, noon)]"

section \<open>The clamp\<close>

lemma clipped_result1_cases:
  "clipped_result1 x =
     (if fl_lt (Fin 290) x then PyInt 290 else if fl_lt x (Fin 140) then PyInt 140
      else NpFloat32 x)"
  by (cases x) (auto simp: clipped_result1_def py_min_def py_max_def py_lt_def)

lemma clipped_result11_cases:
  "clipped_result11 x =
     (if fl_lt (Fin 290) x then PyFloat (Fin 290) else if fl_lt x (Fin 140) then PyFloat (Fin 140)
      else PyFloat x)"
  by (cases x) (auto simp: clipped_result11_def py_min_def py_max_def py_lt_def)

lemma clipped_in_range:
  "x \<noteq> NaN \<Longrightarrow> in_range (clipped_result1 x) \<and> in_range (clipped_result11 x)"
  by (cases x) (auto simp: clipped_result1_cases clipped_result11_cases in_range_def)

lemma clipped_nan: "clipped_result1 NaN = NpFloat32 NaN \<and> clipped_result11 NaN = PyFloat NaN"
  by (simp add: clipped_result1_cases clipped_result11_cases)

text \<open>
  C1, as amended. Whatever session is used and whatever the six inputs are, the prediction
  of either script lies in the closed interval from 140 to 290, provided the raw value the
  model returns is not NaN. The infinities are clamped like any other value.
\<close>

theorem predict_in_range:
  "run_model sess i \<noteq> NaN \<Longrightarrow> in_range (predict1 sess i) \<and> in_range (predict11 sess i)"
  unfolding predict1_def predict11_def by (rule clipped_in_range)

theorem predict_in_range_witness:
  "run_model (constant_session (Fin 310)) default_inputs \<noteq> NaN \<and>
   valid_inputs default_inputs \<and>
   in_range (predict1 (constant_session (Fin 310)) default_inputs) \<and>
   in_range (predict11 (constant_session (Fin 310)) default_inputs)"
  using predict_in_range [of "constant_session (Fin 310)" default_inputs]
  by (simp add: constant_session_def valid_inputs_def default_inputs_def)

text \<open>
  C1 as stated fails: with the default slider values, which are inside the documented
  ranges, and a model whose raw output is NaN, both scripts return NaN. \<^verbatim>\<open>min(nan, 290.0)\<close>
  keeps its first argument because \<^verbatim>\<open>290.0 < nan\<close> is false, and \<^verbatim>\<open>max(nan, 140.0)\<close> keeps it
  because \<^verbatim>\<open>140.0 > nan\<close> is false.
\<close>

theorem predict_nan_counterexample:
  "valid_inputs default_inputs \<and>
   \<not> in_range (predict1 (constant_session NaN) default_inputs) \<and>
   \<not> in_range (predict11 (constant_session NaN) default_inputs)"
  by (simp add: valid_inputs_def default_inputs_def predict1_def predict11_def
      constant_session_def clipped_result1_cases clipped_result11_cases in_range_def)

text \<open>
  C2. The clamp leaves a value between 140 and 290 unchanged, sends a value below 140 to
  140 and a value above 290 to 290; so 310 goes to 290 and 50 to 140. In stream11.py the
  bound returned is the float itself; in stream1.py it is the integer literal, whose value
  is the same number.
\<close>

theorem clamp_cases:
  "(fl_le (Fin 140) x \<and> fl_le x (Fin 290) \<longrightarrow>
      clipped_result11 x = PyFloat x \<and> clipped_result1 x = NpFloat32 x) \<and>
   (fl_lt x (Fin 140) \<longrightarrow>
      clipped_result11 x = PyFloat (Fin 140) \<and> as_float (clipped_result1 x) = Fin 140) \<and>
   (fl_lt (Fin 290) x \<longrightarrow>
      clipped_result11 x = PyFloat (Fin 290) \<and> as_float (clipped_result1 x) = Fin 290) \<and>
   clipped_result11 (Fin 310) = PyFloat (Fin 290) \<and>
   clipped_result11 (Fin 50) = PyFloat (Fin 140) \<and>
   as_float (clipped_result1 (Fin 310)) = Fin 290 \<and>
   as_float (clipped_result1 (Fin 50)) = Fin 140"
  by (cases x) (auto simp: clipped_result1_cases clipped_result11_cases)

theorem clamp_cases_witness:
  "(fl_le (Fin 140) (Fin 200) \<and> fl_le (Fin 200) (Fin 290) \<and>
      clipped_result11 (Fin 200) = PyFloat (Fin 200) \<and>
      clipped_result1 (Fin 200) = NpFloat32 (Fin 200)) \<and>
   (fl_lt NInf (Fin 140) \<and>
      clipped_result11 NInf = PyFloat (Fin 140) \<and> as_float (clipped_result1 NInf) = Fin 140) \<and>
   (fl_lt (Fin 290) (Fin 310) \<and>
      clipped_result11 (Fin 310) = PyFloat (Fin 290) \<and>
      as_float (clipped_result1 (Fin 310)) = Fin 290)"
  using clamp_cases [of "Fin 200"] clamp_cases [of NInf] clamp_cases [of "Fin 310"]
  by simp

lemma predict_constant:
  "predict11 (constant_session (Fin 250)) i = PyFloat (Fin 250) \<and>
   predict1 (constant_session (Fin 250)) i = NpFloat32 (Fin 250) \<and>
   predict11 (constant_session (Fin 310)) i = PyFloat (Fin 290) \<and>
   predict1 (constant_session (Fin 310)) i = PyInt 290 \<and>
   predict11 (constant_session NaN) i = PyFloat NaN \<and>
   predict1 (constant_session NaN) i = NpFloat32 NaN"
  by (simp add: predict11_def predict1_def constant_session_def clipped_result1_cases
      clipped_result11_cases)

text \<open>What a prediction can be: in stream11.py a float that is finite or NaN.\<close>

lemma predict11_kind: "\<exists>f. predict11 sess i = PyFloat f \<and> f \<noteq> PInf \<and> f \<noteq> NInf"
  by (cases "run_model sess i") (auto simp: predict11_def clipped_result11_cases)


section \<open>Decimal texts and the timestamp\<close>

lemma str_nat_small: "n < 10 \<Longrightarrow> str_nat n = [digit_char n]"
  by (simp add: str_nat.simps)

lemma str_nat_large: "10 \<le> n \<Longrightarrow> str_nat n = str_nat (n div 10) @ [digit_char (n mod 10)]"
  by (subst str_nat.simps) simp

lemma digit_char_mod: "digit_char (n mod 10) = digit_char n"
  by (simp add: digit_char_def)

lemma digit_char_cases:
  "n < 10 \<Longrightarrow> digit_char n \<in> set ''0123456789'' \<and> digit_val (digit_char n) = n"
proof -
  assume "n < 10"
  then consider "n = 0" | "n = 1" | "n = 2" | "n = 3" | "n = 4" | "n = 5" | "n = 6" | "n = 7"
    | "n = 8" | "n = 9" by atomize_elim arith
  then show ?thesis by cases (simp_all add: digit_char_def digit_val_def)
qed

lemma is_digit_digit_char: "is_digit (digit_char n)"
  unfolding is_digit_def digit_char_def by (rule nth_mem) simp

lemma str_nat_digits: "list_all is_digit (str_nat n) \<and> str_nat n \<noteq> []"
  by (induction n rule: str_nat.induct) (subst (1 2) str_nat.simps, simp add: is_digit_digit_char)

lemma digits_val_snoc: "digits_val (s @ [c]) = 10 * digits_val s + digit_val c"
  by (simp add: digits_val_def)

lemma digits_val_str_nat: "digits_val (str_nat n) = n"
proof (induction n rule: str_nat.induct)
  case (1 n)
  show ?case
  proof (cases "n < 10")
    case True
    then show ?thesis using digit_char_cases [of n] by (simp add: str_nat_small digits_val_def)
  next
    case False
    then have "digits_val (str_nat n) = 10 * (n div 10) + digit_val (digit_char (n mod 10))"
      using 1 by (simp add: str_nat_large digits_val_snoc)
    then show ?thesis using digit_char_cases [of "n mod 10"] by simp
  qed
qed

lemma parse_nat_str_nat: "parse_nat (str_nat n) = Some n"
  by (simp add: parse_nat_def str_nat_digits digits_val_str_nat)

lemma parse_int_str_int: "parse_int (str_int i) = Some i"
proof (cases "i < 0")
  case True
  then show ?thesis by (simp add: parse_int_def str_int_def parse_nat_str_nat)
next
  case False
  obtain c r where s: "str_nat (nat i) = c # r"
    using str_nat_digits [of "nat i"] by (cases "str_nat (nat i)") auto
  have "is_digit c" using str_nat_digits [of "nat i"] s by simp
  then have "c \<noteq> CHR ''-''" "c \<noteq> CHR ''+''" by (auto simp: is_digit_def)
  with False s parse_nat_str_nat [of "nat i"] show ?thesis
    by (simp add: parse_int_def str_int_def)
qed

lemma zero_padded_2:
  assumes "n < 100"
  shows "zero_padded 2 n = [digit_char (n div 10), digit_char n]"
proof (cases "n < 10")
  case True
  then show ?thesis by (simp add: zero_padded_def str_nat_small digit_char_def)
next
  case False
  then have "n div 10 < 10" "10 \<le> n" using assms by simp_all
  then show ?thesis by (simp add: zero_padded_def str_nat_large str_nat_small digit_char_mod)
qed

lemma zero_padded_4:
  assumes "1000 \<le> n" and "n \<le> 9999"
  shows "zero_padded 4 n =
    [digit_char (n div 1000), digit_char (n div 100), digit_char (n div 10), digit_char n]"
proof -
  have d: "n div 10 div 10 = n div 100" "n div 100 div 10 = n div 1000"
    by (simp_all add: div_mult2_eq [symmetric])
  have "n div 1000 < 10" using assms by simp
  then have s3: "str_nat (n div 1000) = [digit_char (n div 1000)]"
    by (rule str_nat_small)
  have "10 \<le> n div 100" using assms by simp
  from str_nat_large [OF this] have s2: "str_nat (n div 100) =
      [digit_char (n div 1000), digit_char (n div 100)]"
    by (simp only: d s3 digit_char_mod append.simps)
  have "10 \<le> n div 10" using assms by simp
  from str_nat_large [OF this] have s1: "str_nat (n div 10) =
      [digit_char (n div 1000), digit_char (n div 100), digit_char (n div 10)]"
    by (simp only: d s2 digit_char_mod append.simps)
  have "10 \<le> n" using assms by simp
  from str_nat_large [OF this] have "str_nat n =
      [digit_char (n div 1000), digit_char (n div 100), digit_char (n div 10), digit_char n]"
    by (simp only: s1 digit_char_mod append.simps)
  then show ?thesis by (simp add: zero_padded_def)
qed

lemma timestamp_parts:
  "timestamp d = zero_padded 4 (year d) @ ''-'' @ zero_padded 2 (month d) @ ''-'' @
     zero_padded 2 (day d) @ '' '' @ zero_padded 2 (hour d) @ '':'' @ zero_padded 2 (minute d) @
     '':'' @ zero_padded 2 (second d)"
  by (simp add: timestamp_def directive_def)

lemma timestamp_digits:
  assumes "valid_datetime d"
  shows "timestamp d =
    [digit_char (year d div 1000), digit_char (year d div 100), digit_char (year d div 10),
     digit_char (year d), CHR ''-'',
     digit_char (month d div 10), digit_char (month d), CHR ''-'',
     digit_char (day d div 10), digit_char (day d), CHR '' '',
     digit_char (hour d div 10), digit_char (hour d), CHR '':'',
     digit_char (minute d div 10), digit_char (minute d), CHR '':'',
     digit_char (second d div 10), digit_char (second d)]"
proof -
  have "zero_padded 4 (year d) = [digit_char (year d div 1000), digit_char (year d div 100),
      digit_char (year d div 10), digit_char (year d)]"
    using assms by (intro zero_padded_4) (simp_all add: valid_datetime_def)
  moreover have "zero_padded 2 (month d) = [digit_char (month d div 10), digit_char (month d)]"
    "zero_padded 2 (day d) = [digit_char (day d div 10), digit_char (day d)]"
    "zero_padded 2 (hour d) = [digit_char (hour d div 10), digit_char (hour d)]"
    "zero_padded 2 (minute d) = [digit_char (minute d div 10), digit_char (minute d)]"
    "zero_padded 2 (second d) = [digit_char (second d div 10), digit_char (second d)]"
    using assms by (simp_all add: zero_padded_2 valid_datetime_def)
  ultimately show ?thesis by (simp add: timestamp_parts)
qed

lemma timestamp_shape: "valid_datetime d \<Longrightarrow> has_shape ''DDDD-DD-DD DD:DD:DD'' (timestamp d)"
  by (simp add: timestamp_digits is_digit_digit_char)

lemma valid_noon: "valid_datetime noon"
  by (simp add: valid_datetime_def noon_def)

lemma timestamp_noon: "timestamp noon = ''2025-08-20 12:00:05''"
  unfolding timestamp_digits [OF valid_noon] by (simp add: noon_def digit_char_def)

section \<open>What the written fields are read as\<close>

lemma not_digit_colon: "\<not> is_digit (CHR '':'')"
  by (simp add: is_digit_def)

lemma not_all_digits: "CHR '':'' \<in> set s \<Longrightarrow> \<not> list_all is_digit s"
  using not_digit_colon by (auto simp: list_all_iff)

lemma parse_nat_colon: "CHR '':'' \<in> set s \<Longrightarrow> parse_nat s = None"
  by (simp add: parse_nat_def not_all_digits)

lemma parse_int_colon: "CHR '':'' \<in> set s \<Longrightarrow> parse_int s = None"
  by (cases s) (auto simp: parse_int_def parse_nat_colon)

lemma parse_decimal_colon:
  assumes "CHR '':'' \<in> set s"
  shows "parse_decimal s = None"
proof -
  obtain neg body where u: "unsigned s = (neg, body)" by (cases "unsigned s")
  have c: "CHR '':'' \<in> set body"
    using assms u by (cases s) (auto simp: unsigned_def split: if_splits)
  let ?P = "\<lambda>c. c \<noteq> CHR ''.''"
  show ?thesis
  proof (cases "dropWhile ?P body")
    case Nil
    with u show ?thesis by (simp add: parse_decimal_def Let_def del: dropWhile_eq_Nil_conv)
  next
    case (Cons dot fp)
    have eq: "takeWhile ?P body @ dot # fp = body"
      using Cons takeWhile_dropWhile_id [of ?P body] by simp
    have dot: "dot = CHR ''.''"
      using Cons hd_dropWhile [of ?P body] by simp
    have "CHR '':'' \<in> set (takeWhile ?P body @ dot # fp)"
      unfolding eq by (rule c)
    then have "CHR '':'' \<in> set (takeWhile ?P body) \<or> CHR '':'' \<in> set fp"
      using dot by auto
    then have "\<not> (list_all is_digit (takeWhile ?P body) \<and> list_all is_digit fp)"
      using not_all_digits by blast
    with u Cons show ?thesis
      by (auto simp add: parse_decimal_def Let_def simp del: dropWhile_eq_Nil_conv)
  qed
qed

lemma na_values_not_int:
  assumes "s \<in> set na_values"
  shows "parse_int s = None"
proof -
  have "list_all (\<lambda>s. parse_int s = None) na_values"
    by (simp add: na_values_def parse_int_def parse_nat_def is_digit_def)
  with assms show ?thesis by (simp add: list_all_iff)
qed

lemma na_values_no_colon:
  assumes "s \<in> set na_values"
  shows "CHR '':'' \<notin> set s"
proof -
  have "list_all (\<lambda>s. CHR '':'' \<notin> set s) na_values"
    by (simp add: na_values_def)
  with assms show ?thesis by (simp add: list_all_iff)
qed

lemma classify_colon: "CHR '':'' \<in> set s \<Longrightarrow> classify_chars s = PText"
  using na_values_no_colon [of s]
  by (auto simp: classify_chars_def parse_int_colon parse_decimal_colon)

lemma classify_timestamp: "classify_chars (timestamp d) = PText"
  by (rule classify_colon) (simp add: timestamp_parts)

lemma classify_str_int: "classify_chars (str_int i) = PInt i"
  using na_values_not_int [of "str_int i"]
  by (auto simp: classify_chars_def parse_int_str_int)

lemma classify_words:
  "classify_chars ''nan'' = PNA" "classify_chars [] = PNA"
  "classify_chars ''inf'' = PFlt PInf" "classify_chars ''-inf'' = PFlt NInf"
  by (simp_all add: classify_chars_def na_values_def parse_int_def parse_nat_def
      parse_decimal_def unsigned_def is_digit_def)

lemma float64_field_read:
  "na = ''nan'' \<or> na = [] \<Longrightarrow>
   convert DFloat (float64_field na f) = F64 f \<and>
   is_pnum (classify (float64_field na f)) \<and> \<not> is_pint (classify (float64_field na f))"
  by (cases f) (auto simp: classify_words)


lemma col_dtype_text:
  "qs \<noteq> [] \<Longrightarrow> \<forall>q\<in>set qs. g q = PText \<Longrightarrow> col_dtype (map g qs) = DObject"
  by (cases qs) (auto simp: col_dtype_def)

lemma col_dtype_int:
  "qs \<noteq> [] \<Longrightarrow> \<forall>q\<in>set qs. is_pint (g q) \<Longrightarrow> col_dtype (map g qs) = DInt"
  by (auto simp: col_dtype_def list_all_iff)

lemma col_dtype_float:
  "qs \<noteq> [] \<Longrightarrow> \<forall>q\<in>set qs. is_pnum (g q) \<and> \<not> is_pint (g q) \<Longrightarrow>
   col_dtype (map g qs) = DFloat"
  by (cases qs) (auto simp: col_dtype_def list_all_iff)


section \<open>Writing the log\<close>

lemma df_of_log_dict:
  "df_columns (log_dict t i c) = header_fields \<and> df_values (log_dict t i c) = log_row t i c"
  by (simp add: df_columns_def df_values_def log_dict_def header_fields_def log_row_def)

lemma written_header: "map csv_writer_field header_row = header_fields"
  by (simp add: header_row_def header_fields_def)

lemma predict_block11_ok:
  "write_ok w \<Longrightarrow>
   predict_block11 sess i now w =
     \<lparr>shown = [Result_markdown (as_float (predict11 sess i))], raised = None,
      world_after = w\<lparr>files := (files w)(LOG_PATH \<mapsto>
          (case files w LOG_PATH of None \<Rightarrow> [header_fields] | Some old \<Rightarrow> old) @
          [map csv_writer_field (log_row (timestamp now) i (predict11 sess i))]),
        log_writes := log_writes w + 1\<rparr>\<rparr>"
  by (simp add: predict_block11_def append_rows_def path_exists_def Let_def written_header
      split: option.splits)

lemma predict_block1_ok:
  "write_ok w \<Longrightarrow>
   predict_block1 sess i now w =
     \<lparr>shown = [Result_markdown (as_float (predict1 sess i))], raised = None,
      world_after = w\<lparr>files := (files w)(LOG_PATH \<mapsto>
          (case files w LOG_PATH of None \<Rightarrow> [header_fields] | Some old \<Rightarrow> old) @
          [map pandas_field (log_row (timestamp now) i (predict1 sess i))]),
        log_writes := log_writes w + 1\<rparr>\<rparr>"
  by (simp add: predict_block1_def append_rows_def write_rows_def path_exists_def Let_def
      df_of_log_dict split: option.splits)

lemma predict_block11_refused:
  "\<not> write_ok w \<Longrightarrow>
   predict_block11 sess i now w =
     \<lparr>shown = [Result_markdown (as_float (predict11 sess i)), Warning_could_not_write OSError],
      raised = None, world_after = w\<lparr>log_writes := log_writes w + 1\<rparr>\<rparr>"
  by (simp add: predict_block11_def append_rows_def Let_def)

lemma predict_block1_refused:
  "\<not> write_ok w \<Longrightarrow>
   predict_block1 sess i now w =
     \<lparr>shown = [Result_markdown (as_float (predict1 sess i))],
      raised = Some OSError, world_after = w\<lparr>log_writes := log_writes w + 1\<rparr>\<rparr>"
  by (simp add: predict_block1_def append_rows_def write_rows_def Let_def)

lemma csv_line_header:
  "csv_line repr64 repr32 header_fields =
     ''Time,Steam Flow,HRH P,HRH T,Main Steam P,HP Temp,Ambient,Predicted MW''"
  by (simp add: csv_line_def header_fields_def)

lemma csv_line_written11:
  "csv_line repr64 repr32 (map csv_writer_field (log_row t i c)) =
     t @ '','' @ repr64 (steam_flow i) @ '','' @ repr64 (hrh_p i) @ '','' @
     str_int (hrh_t i) @ '','' @ repr64 (main_p i) @ '','' @ str_int (hp_t i) @ '','' @
     repr64 (ambient i) @ '','' @ field_chars repr64 repr32 (csv_writer_field (CNum c))"
  by (simp add: csv_line_def log_row_def)

lemma csv_line_written1:
  "csv_line repr64 repr32 (map pandas_field (log_row t i c)) =
     t @ '','' @ repr64 (steam_flow i) @ '','' @ repr64 (hrh_p i) @ '','' @
     str_int (hrh_t i) @ '','' @ repr64 (main_p i) @ '','' @ str_int (hp_t i) @ '','' @
     repr64 (ambient i) @ '','' @ field_chars repr64 repr32 (pandas_field (CNum c))"
  by (simp add: csv_line_def log_row_def)

lemma digit_chars: "map digit_char [0, 1, 2, 3, 4, 5, 6, 7, 8, 9] = ''0123456789''"
  by (simp add: digit_char_def)

lemma str_nat_3:
  assumes "100 \<le> n" and "n \<le> 999"
  shows "str_nat n = [digit_char (n div 100), digit_char (n div 10), digit_char n]"
proof -
  have d: "n div 10 div 10 = n div 100"
    by (simp add: div_mult2_eq [symmetric])
  have "n div 100 < 10" using assms by simp
  then have s2: "str_nat (n div 100) = [digit_char (n div 100)]"
    by (rule str_nat_small)
  have "10 \<le> n div 10" using assms by simp
  from str_nat_large [OF this] have s1: "str_nat (n div 10) =
      [digit_char (n div 100), digit_char (n div 10)]"
    by (simp only: d s2 digit_char_mod append.simps)
  have "10 \<le> n" using assms by simp
  from str_nat_large [OF this] show ?thesis
    by (simp only: s1 digit_char_mod append.simps)
qed

lemma slider_int_text:
  assumes "390 \<le> k" and "k \<le> 540"
  shows "str_int k = [digit_char (nat k div 100), digit_char (nat k div 10), digit_char (nat k)]"
proof -
  have "100 \<le> nat k" "nat k \<le> 999" using assms by simp_all
  from str_nat_3 [OF this] show ?thesis using assms by (simp add: str_int_def)
qed

text \<open>
  C3. When the write is allowed, the prediction block of either script leaves the log file
  holding what it held before followed by the new record, and a file that did not exist
  holds the header followed by the record. As text, the header is the line
  \<^verbatim>\<open>Time,Steam Flow,HRH P,HRH T,Main Steam P,HP Temp,Ambient,Predicted MW\<close> and the record is
  the timestamp, the six inputs and the prediction in that order with commas between them.
  The timestamp is the year, the month, the day, the hour, the minute and the second of the
  clock's reading in this order, in decimal, filled with zeros to four digits for the year
  and two for the others, with \<^verbatim>\<open>-\<close>, \<^verbatim>\<open>-\<close>, a blank, \<^verbatim>\<open>:\<close> and \<^verbatim>\<open>:\<close> between them; for a
  valid reading that is nineteen characters of the shape \<^verbatim>\<open>YYYY-MM-DD HH:MM:SS\<close>. The two
  integer inputs, inside their slider ranges, are written as their three decimal digits.
\<close>

theorem append_header_then_row:
  "write_ok w \<Longrightarrow>
   files (world_after (predict_block11 sess i now w)) LOG_PATH =
     Some ((case files w LOG_PATH of None \<Rightarrow> [header_fields] | Some old \<Rightarrow> old) @
           [map csv_writer_field (log_row (timestamp now) i (predict11 sess i))]) \<and>
   files (world_after (predict_block1 sess i now w)) LOG_PATH =
     Some ((case files w LOG_PATH of None \<Rightarrow> [header_fields] | Some old \<Rightarrow> old) @
           [map pandas_field (log_row (timestamp now) i (predict1 sess i))]) \<and>
   csv_line repr64 repr32 header_fields =
     ''Time,Steam Flow,HRH P,HRH T,Main Steam P,HP Temp,Ambient,Predicted MW'' \<and>
   csv_line repr64 repr32 (map csv_writer_field (log_row (timestamp now) i c)) =
     timestamp now @ '','' @ repr64 (steam_flow i) @ '','' @ repr64 (hrh_p i) @ '','' @
     str_int (hrh_t i) @ '','' @ repr64 (main_p i) @ '','' @ str_int (hp_t i) @ '','' @
     repr64 (ambient i) @ '','' @ field_chars repr64 repr32 (csv_writer_field (CNum c)) \<and>
   csv_line repr64 repr32 (map pandas_field (log_row (timestamp now) i c)) =
     timestamp now @ '','' @ repr64 (steam_flow i) @ '','' @ repr64 (hrh_p i) @ '','' @
     str_int (hrh_t i) @ '','' @ repr64 (main_p i) @ '','' @ str_int (hp_t i) @ '','' @
     repr64 (ambient i) @ '','' @ field_chars repr64 repr32 (pandas_field (CNum c)) \<and>
   timestamp now =
     zero_padded 4 (year now) @ ''-'' @ zero_padded 2 (month now) @ ''-'' @
     zero_padded 2 (day now) @ '' '' @ zero_padded 2 (hour now) @ '':'' @
     zero_padded 2 (minute now) @ '':'' @ zero_padded 2 (second now) \<and>
   (valid_datetime now \<longrightarrow>
      has_shape ''DDDD-DD-DD DD:DD:DD'' (timestamp now) \<and>
      timestamp now =
        [digit_char (year now div 1000), digit_char (year now div 100),
         digit_char (year now div 10), digit_char (year now), CHR ''-'',
         digit_char (month now div 10), digit_char (month now), CHR ''-'',
         digit_char (day now div 10), digit_char (day now), CHR '' '',
         digit_char (hour now div 10), digit_char (hour now), CHR '':'',
         digit_char (minute now div 10), digit_char (minute now), CHR '':'',
         digit_char (second now div 10), digit_char (second now)]) \<and>
   map digit_char [0, 1, 2, 3, 4, 5, 6, 7, 8, 9] = ''0123456789'' \<and>
   (valid_inputs i \<longrightarrow>
      str_int (hrh_t i) =
        [digit_char (nat (hrh_t i) div 100), digit_char (nat (hrh_t i) div 10),
         digit_char (nat (hrh_t i))] \<and>
      str_int (hp_t i) =
        [digit_char (nat (hp_t i) div 100), digit_char (nat (hp_t i) div 10),
         digit_char (nat (hp_t i))])"
proof -
  assume w: "write_ok w"
  have s: "valid_inputs i \<longrightarrow>
      str_int (hrh_t i) =
        [digit_char (nat (hrh_t i) div 100), digit_char (nat (hrh_t i) div 10),
         digit_char (nat (hrh_t i))] \<and>
      str_int (hp_t i) =
        [digit_char (nat (hp_t i) div 100), digit_char (nat (hp_t i) div 10),
         digit_char (nat (hp_t i))]"
    using slider_int_text [of "hrh_t i"] slider_int_text [of "hp_t i"]
    by (simp add: valid_inputs_def)
  have t: "valid_datetime now \<longrightarrow>
      has_shape ''DDDD-DD-DD DD:DD:DD'' (timestamp now) \<and>
      timestamp now =
        [digit_char (year now div 1000), digit_char (year now div 100),
         digit_char (year now div 10), digit_char (year now), CHR ''-'',
         digit_char (month now div 10), digit_char (month now), CHR ''-'',
         digit_char (day now div 10), digit_char (day now), CHR '' '',
         digit_char (hour now div 10), digit_char (hour now), CHR '':'',
         digit_char (minute now div 10), digit_char (minute now), CHR '':'',
         digit_char (second now div 10), digit_char (second now)]"
    using timestamp_shape [of now] timestamp_digits [of now] by blast
  have f: "files (world_after (predict_block11 sess i now w)) LOG_PATH =
     Some ((case files w LOG_PATH of None \<Rightarrow> [header_fields] | Some old \<Rightarrow> old) @
           [map csv_writer_field (log_row (timestamp now) i (predict11 sess i))])"
    "files (world_after (predict_block1 sess i now w)) LOG_PATH =
     Some ((case files w LOG_PATH of None \<Rightarrow> [header_fields] | Some old \<Rightarrow> old) @
           [map pandas_field (log_row (timestamp now) i (predict1 sess i))])"
    using w by (simp_all add: predict_block11_ok predict_block1_ok)
  show ?thesis
    using t f s csv_line_header [of repr64 repr32] csv_line_written11 [of repr64 repr32]
      csv_line_written1 [of repr64 repr32] timestamp_parts [of now] digit_chars
    by blast
qed

lemma empty_world_simps:
  "write_ok empty_world" "remove_ok empty_world" "files empty_world p = None"
  "log_cache empty_world p = None" "session_cache empty_world p = None"
  "model_loads empty_world = 0" "log_writes empty_world = 0"
  "files empty_world = Map.empty" "log_cache empty_world = Map.empty"
  by (simp_all add: empty_world_def)

lemma header_only_world_simps:
  "write_ok header_only_world" "remove_ok header_only_world"
  "files header_only_world = [LOG_PATH \<mapsto> [header_fields]]"
  "log_cache header_only_world = Map.empty" "path_exists header_only_world LOG_PATH"
  by (simp_all add: header_only_world_def empty_world_def path_exists_def)

lemma noon_row_written:
  "map csv_writer_field (log_row ''2025-08-20 12:00:05'' default_inputs c) =
     noon_inputs_fields @ [csv_writer_field (CNum c)] \<and>
   map pandas_field (log_row ''2025-08-20 12:00:05'' default_inputs c) =
     noon_inputs_fields @ [pandas_field (CNum c)]"
  by (simp add: log_row_def default_inputs_def noon_inputs_fields_def str_int_def
      str_nat_large str_nat_small digit_char_def)

theorem append_header_then_row_witness:
  "write_ok empty_world \<and> valid_datetime noon \<and>
   files (world_after (predict_block11 (constant_session (Fin 250)) default_inputs noon
      empty_world)) LOG_PATH =
     Some [header_fields, noon_inputs_fields @ [Float64_text 250]] \<and>
   files (world_after (predict_block1 (constant_session (Fin 250)) default_inputs noon
      empty_world)) LOG_PATH =
     Some [header_fields, noon_inputs_fields @ [Float32_text 250]] \<and>
   timestamp noon = ''2025-08-20 12:00:05'' \<and>
   has_shape ''DDDD-DD-DD DD:DD:DD'' ''2025-08-20 12:00:05'' \<and>
   valid_inputs default_inputs \<and>
   str_int (hrh_t default_inputs) = ''525'' \<and> str_int (hp_t default_inputs) = ''538'' \<and>
   write_ok header_only_world \<and>
   files (world_after (predict_block11 (constant_session (Fin 310)) default_inputs noon
      header_only_world)) LOG_PATH =
     Some [header_fields, noon_inputs_fields @ [Float64_text 290]] \<and>
   files (world_after (predict_block1 (constant_session (Fin 310)) default_inputs noon
      header_only_world)) LOG_PATH =
     Some [header_fields, noon_inputs_fields @ [Chars ''290'']]"
proof -
  note a = append_header_then_row [OF empty_world_simps(1), of "constant_session (Fin 250)"
      default_inputs noon "\<lambda>x. []" "\<lambda>x. []" "PyInt 0"]
  note b = append_header_then_row [OF header_only_world_simps(1), of
      "constant_session (Fin 310)" default_inputs noon "\<lambda>x. []" "\<lambda>x. []" "PyInt 0"]
  have a1: "files (world_after (predict_block11 (constant_session (Fin 250)) default_inputs noon
      empty_world)) LOG_PATH = Some [header_fields, noon_inputs_fields @ [Float64_text 250]]"
    using a [THEN conjunct1]
    by (simp add: empty_world_simps timestamp_noon predict_constant noon_row_written)
  have a2: "files (world_after (predict_block1 (constant_session (Fin 250)) default_inputs noon
      empty_world)) LOG_PATH = Some [header_fields, noon_inputs_fields @ [Float32_text 250]]"
    using a [THEN conjunct2, THEN conjunct1]
    by (simp add: empty_world_simps timestamp_noon predict_constant noon_row_written)
  have b1: "files (world_after (predict_block11 (constant_session (Fin 310)) default_inputs noon
      header_only_world)) LOG_PATH = Some [header_fields, noon_inputs_fields @ [Float64_text 290]]"
    using b [THEN conjunct1]
    by (simp add: header_only_world_simps timestamp_noon predict_constant noon_row_written)
  have s290: "str_int 290 = ''290''"
    by (simp add: str_int_def str_nat_large str_nat_small digit_char_def)
  have b2: "files (world_after (predict_block1 (constant_session (Fin 310)) default_inputs noon
      header_only_world)) LOG_PATH = Some [header_fields, noon_inputs_fields @ [Chars ''290'']]"
    using b [THEN conjunct2, THEN conjunct1]
    by (simp add: header_only_world_simps timestamp_noon predict_constant noon_row_written s290)
  have "valid_datetime noon \<longrightarrow> has_shape ''DDDD-DD-DD DD:DD:DD'' (timestamp noon)"
    using a by blast
  then have c: "has_shape ''DDDD-DD-DD DD:DD:DD'' ''2025-08-20 12:00:05''"
    by (simp add: valid_noon timestamp_noon)
  have v: "valid_inputs default_inputs"
    by (simp add: valid_inputs_def default_inputs_def)
  have "valid_inputs default_inputs \<longrightarrow>
      str_int (hrh_t default_inputs) =
        [digit_char (nat (hrh_t default_inputs) div 100),
         digit_char (nat (hrh_t default_inputs) div 10), digit_char (nat (hrh_t default_inputs))] \<and>
      str_int (hp_t default_inputs) =
        [digit_char (nat (hp_t default_inputs) div 100),
         digit_char (nat (hp_t default_inputs) div 10), digit_char (nat (hp_t default_inputs))]"
    using a by blast
  with v have d: "str_int (hrh_t default_inputs) = ''525''" "str_int (hp_t default_inputs) = ''538''"
    by (simp_all add: default_inputs_def digit_char_def)
  show ?thesis
    using a1 a2 b1 b2 c v d
    by (simp add: empty_world_simps header_only_world_simps valid_noon timestamp_noon)
qed

section \<open>Reading the log back\<close>

lemma upt_8: "[0..<8] = [0, 1, 2, 3, 4, 5, 6, 7::nat]"
  by code_simp

lemma length_header_fields: "length header_fields = 8"
  by (simp add: header_fields_def)

lemma length_log_row: "length (log_row t i c) = 8"
  by (simp add: log_row_def)

lemma request_row1_eq: "request_row1 (sess, i, now) = log_row (timestamp now) i (predict1 sess i)"
  by (simp add: request_row1_def df_of_log_dict)

lemma request_row11_eq: "request_row11 (sess, i, now) = log_row (timestamp now) i (predict11 sess i)"
  by (simp add: request_row11_def)

lemma length_request_row: "length (request_row1 q) = 8 \<and> length (request_row11 q) = 8"
  by (cases q) (simp add: request_row1_eq request_row11_eq length_log_row)

lemma fill_record_full: "length r = n \<Longrightarrow> fill_record n r = r"
  by (simp add: fill_record_def)

text \<open>A file whose records all have as many fields as its header.\<close>

lemma read_csv_rect:
  assumes "h \<noteq> []" and "\<forall>r\<in>set rs. length r = length h"
  shows "read_csv (h # rs) =
    Inr \<lparr>columns = h, index_fields = map (\<lambda>r. []) rs,
         records = map (\<lambda>r. map (\<lambda>(d, t). convert d t) (zip (dtypes (length h) rs) r)) rs\<rparr>"
proof -
  have ne: "\<forall>r\<in>set rs. r \<noteq> []" using assms by auto
  then have flt: "filter (\<lambda>r. r \<noteq> []) (h # rs) = h # rs"
    using assms(1) by (simp add: filter_id_conv)
  have e: "(case rs of [] \<Rightarrow> length h | r # _ \<Rightarrow> max (length h) (length r)) = length h"
    using assms(2) by (cases rs) auto
  have no_long: "\<not> list_ex (\<lambda>r. length h < length r) rs"
    using assms(2) by (simp add: list_ex_iff)
  have fill: "map (fill_record (length h)) rs = rs"
    using assms(2) by (intro map_idI) (simp add: fill_record_full)
  show ?thesis
    unfolding read_csv_def flt
    by (simp add: e no_long fill Let_def)
qed

lemma read_csv_header_only:
  "read_csv [header_fields] = Inr \<lparr>columns = header_fields, index_fields = [], records = []\<rparr>"
  using read_csv_rect [of header_fields "[]"] by (simp add: header_fields_def)

lemma read_csv_empty: "read_csv [] = Inl EmptyDataError"
  by (simp add: read_csv_def)

text \<open>The fields of a record as the two writers put them.\<close>

lemma predict11_float: "predict11 sess i = PyFloat (as_float (predict11 sess i))"
  using predict11_kind [of sess i] by auto

lemma written11_row:
  "map csv_writer_field (request_row11 q) =
     [Chars (timestamp (snd (snd q))), Float64_text (steam_flow (fst (snd q))),
      Float64_text (hrh_p (fst (snd q))), Chars (str_int (hrh_t (fst (snd q)))),
      Float64_text (main_p (fst (snd q))), Chars (str_int (hp_t (fst (snd q)))),
      Float64_text (ambient (fst (snd q))),
      float64_field ''nan'' (as_float (predict11 (fst q) (fst (snd q))))]"
proof (cases q)
  case (fields sess i now)
  have "csv_writer_field (CNum (predict11 sess i)) =
      float64_field ''nan'' (as_float (predict11 sess i))"
    by (subst predict11_float) simp
  then show ?thesis by (simp add: fields request_row11_eq log_row_def)
qed


lemma classify_float_fields:
  "classify (float64_field ''nan'' f) = (if f = NaN then PNA else PFlt f)"
  "classify (float64_field [] f) = (if f = NaN then PNA else PFlt f)"
  by (cases f; simp add: classify_words)+

lemma float_kind: "is_pnum (PFlt f) \<and> \<not> is_pint (PFlt f)"
  by simp

text \<open>The column types of a log written by stream11.py.\<close>

lemma dtypes_written11:
  assumes "qs \<noteq> []"
  shows "dtypes 8 (map (\<lambda>q. map csv_writer_field (request_row11 q)) qs) =
    [DObject, DFloat, DFloat, DInt, DFloat, DInt, DFloat, DFloat]"
proof -
  let ?col = "\<lambda>j q. classify (map csv_writer_field (request_row11 q) ! j)"
  have c0: "\<forall>q\<in>set qs. ?col 0 q = PText"
    by (simp add: written11_row classify_timestamp)
  have c1: "\<forall>q\<in>set qs. is_pnum (?col (Suc 0) q) \<and> \<not> is_pint (?col (Suc 0) q)"
    by (simp add: written11_row)
  have c2: "\<forall>q\<in>set qs. is_pnum (?col 2 q) \<and> \<not> is_pint (?col 2 q)"
    by (simp add: written11_row)
  have c3: "\<forall>q\<in>set qs. is_pint (?col 3 q)"
    by (simp add: written11_row classify_str_int)
  have c4: "\<forall>q\<in>set qs. is_pnum (?col 4 q) \<and> \<not> is_pint (?col 4 q)"
    by (simp add: written11_row)
  have c5: "\<forall>q\<in>set qs. is_pint (?col 5 q)"
    by (simp add: written11_row classify_str_int)
  have c6: "\<forall>q\<in>set qs. is_pnum (?col 6 q) \<and> \<not> is_pint (?col 6 q)"
    by (simp add: written11_row)
  have c7: "\<forall>q\<in>set qs. is_pnum (?col 7 q) \<and> \<not> is_pint (?col 7 q)"
    by (simp add: written11_row float64_field_read)
  show ?thesis
    unfolding dtypes_def upt_8
    by (simp add: o_def col_dtype_text [OF assms c0] col_dtype_float [OF assms c1]
        col_dtype_float [OF assms c2] col_dtype_int [OF assms c3] col_dtype_float [OF assms c4]
        col_dtype_int [OF assms c5] col_dtype_float [OF assms c6] col_dtype_float [OF assms c7])
qed

text \<open>Under these types every field of a record comes back as the value written.\<close>

lemma convert_written11:
  "map (\<lambda>(d, t). convert d t)
     (zip [DObject, DFloat, DFloat, DInt, DFloat, DInt, DFloat, DFloat]
        (map csv_writer_field (request_row11 q))) = map exact_value (request_row11 q)"
proof (cases q)
  case (fields sess i now)
  have p: "exact_value (CNum (predict11 sess i)) = F64 (as_float (predict11 sess i))"
    by (subst predict11_float) simp
  show ?thesis
    unfolding written11_row
    by (simp add: fields request_row11_eq log_row_def classify_timestamp classify_str_int
        classify_float_fields p)
qed

lemma read_written11:
  assumes "qs \<noteq> []"
  shows "read_csv (header_fields # map (\<lambda>q. map csv_writer_field (request_row11 q)) qs) =
    Inr \<lparr>columns = header_fields, index_fields = map (\<lambda>q. []) qs,
         records = map (\<lambda>q. map exact_value (request_row11 q)) qs\<rparr>"
proof -
  let ?rs = "map (\<lambda>q. map csv_writer_field (request_row11 q)) qs"
  have len: "\<forall>r\<in>set ?rs. length r = length header_fields"
    by (simp add: length_request_row length_header_fields)
  have ne: "header_fields \<noteq> []" by (simp add: header_fields_def)
  show ?thesis
    unfolding read_csv_rect [OF ne len]
    by (simp add: length_header_fields dtypes_written11 [OF assms] convert_written11 o_def)
qed









section \<open>The round trip through the log\<close>

lemma predictions11_appends:
  "write_ok w \<Longrightarrow> files w LOG_PATH = Some f \<Longrightarrow>
   files (predictions11 qs w) LOG_PATH =
     Some (f @ map (\<lambda>q. map csv_writer_field (request_row11 q)) qs) \<and>
   log_cache (predictions11 qs w) = log_cache w"
proof (induction qs arbitrary: w f)
  case Nil
  then show ?case by simp
next
  case (Cons q qs)
  obtain sess i now where q: "q = (sess, i, now)" by (cases q) auto
  let ?w = "world_after (predict_block11 sess i now w)"
  have step: "write_ok ?w"
    "files ?w LOG_PATH = Some (f @ [map csv_writer_field (request_row11 q)])"
    "log_cache ?w = log_cache w"
    using Cons.prems by (simp_all add: predict_block11_ok q request_row11_eq)
  from Cons.IH [OF step(1) step(2)] step(3) show ?case by (simp add: q)
qed

lemma predictions1_appends:
  "write_ok w \<Longrightarrow> files w LOG_PATH = Some f \<Longrightarrow>
   files (predictions1 qs w) LOG_PATH = Some (f @ map (\<lambda>q. map pandas_field (request_row1 q)) qs)"
proof (induction qs arbitrary: w f)
  case Nil
  then show ?case by simp
next
  case (Cons q qs)
  obtain sess i now where q: "q = (sess, i, now)" by (cases q) auto
  let ?w = "world_after (predict_block1 sess i now w)"
  have step: "write_ok ?w" "files ?w LOG_PATH = Some (f @ [map pandas_field (request_row1 q)])"
    using Cons.prems by (simp_all add: predict_block1_ok q request_row1_eq)
  from Cons.IH [OF step(1) step(2)] show ?case by (simp add: q)
qed

lemma predictions11_creates:
  assumes "write_ok w" and "files w LOG_PATH = None" and "qs \<noteq> []"
  shows "files (predictions11 qs w) LOG_PATH =
           Some (header_fields # map (\<lambda>q. map csv_writer_field (request_row11 q)) qs) \<and>
         log_cache (predictions11 qs w) = log_cache w"
proof -
  obtain sess i now qs' where qs: "qs = (sess, i, now) # qs'"
    using assms(3) by (cases qs) auto
  let ?w = "world_after (predict_block11 sess i now w)"
  have step: "write_ok ?w"
    "files ?w LOG_PATH = Some [header_fields, map csv_writer_field (request_row11 (sess, i, now))]"
    "log_cache ?w = log_cache w"
    using assms(1,2) by (simp_all add: predict_block11_ok request_row11_eq)
  from predictions11_appends [OF step(1) step(2), of qs'] step(3) show ?thesis
    by (simp add: qs)
qed

lemma predictions1_creates:
  assumes "write_ok w" and "files w LOG_PATH = None" and "qs \<noteq> []"
  shows "files (predictions1 qs w) LOG_PATH =
           Some (header_fields # map (\<lambda>q. map pandas_field (request_row1 q)) qs)"
proof -
  obtain sess i now qs' where qs: "qs = (sess, i, now) # qs'"
    using assms(3) by (cases qs) auto
  let ?w = "world_after (predict_block1 sess i now w)"
  have step: "write_ok ?w"
    "files ?w LOG_PATH = Some [header_fields, map pandas_field (request_row1 (sess, i, now))]"
    using assms(1,2) by (simp_all add: predict_block1_ok request_row1_eq)
  from predictions1_appends [OF step(1) step(2), of qs'] show ?thesis
    by (simp add: qs)
qed




lemma noon_rows_read:
  "map exact_value (butlast (log_row ''2025-08-20 12:00:05'' default_inputs c)) = noon_inputs_read"
  by (simp add: log_row_def default_inputs_def noon_inputs_read_def)





section \<open>The viewers\<close>

lemma load_log_body_cases:
  "(files w path = None \<longrightarrow> load_log_body path w = None) \<and>
   (files w path = Some f \<and> read_csv f = Inl e \<longrightarrow> load_log_body path w = None) \<and>
   (files w path = Some f \<and> read_csv f = Inr t \<longrightarrow> load_log_body path w = Some t)"
  by (simp add: load_log_body_def)

lemma log_viewer11_never_raises: "raised (log_viewer11 w) = None"
  by (simp add: log_viewer11_def split: prod.splits option.splits)

lemma noon_row_exact:
  "map exact_value (log_row ''2025-08-20 12:00:05'' default_inputs c) =
     noon_inputs_read @ [exact_value (CNum c)]"
  by (simp add: log_row_def default_inputs_def noon_inputs_read_def)

lemma read_noon_log:
  "read_csv [header_fields, noon_inputs_fields @ [Float64_text 250]] =
     Inr \<lparr>columns = header_fields, index_fields = [[]],
          records = [noon_inputs_read @ [F64 (Fin 250)]]\<rparr>"
  using read_written11 [of "[(constant_session (Fin 250), default_inputs, noon)]"]
  by (simp add: request_row11_eq timestamp_noon predict_constant noon_row_written
      noon_row_exact)

lemma viewed_then_cleared_state:
  "files viewed_then_cleared LOG_PATH = None \<and>
   log_cache viewed_then_cleared LOG_PATH =
     Some (Some \<lparr>columns = header_fields, index_fields = [[]],
                 records = [noon_inputs_read @ [F64 (Fin 250)]]\<rparr>)"
proof -
  let ?r = "noon_inputs_fields @ [Float64_text 250]"
  let ?t = "\<lparr>columns = header_fields, index_fields = [[]],
            records = [noon_inputs_read @ [F64 (Fin 250)]]\<rparr>"
  let ?w1 = "world_after (predict_block11 (constant_session (Fin 250)) default_inputs noon
    empty_world)"
  have w1: "?w1 = empty_world\<lparr>files := [LOG_PATH \<mapsto> [header_fields, ?r]], log_writes := 1\<rparr>"
    by (simp add: predict_block11_ok empty_world_simps timestamp_noon predict_constant
        noon_row_written)
  let ?w2 = "world_after (log_viewer11 ?w1)"
  have w2: "?w2 = ?w1\<lparr>log_cache := [LOG_PATH \<mapsto> Some ?t]\<rparr>"
    unfolding w1
    by (simp add: log_viewer11_def load_log_def load_log_body_def read_noon_log empty_world_def
        Let_def)
  show ?thesis
    unfolding viewed_then_cleared_def w2 unfolding w1
    by (simp add: clear_block11_def path_exists_def os_remove_def empty_world_def)
qed

text \<open>
  C5, the scripts at two inputs where the claim does not hold. With a log file of zero bytes
  the viewer of stream1.py ends in an uncaught \<^verbatim>\<open>EmptyDataError\<close>, where the body of
  \<^verbatim>\<open>load_log\<close> in stream11.py returns \<^verbatim>\<open>None\<close>. In stream11.py, after a prediction, a
  look at the log and a clear, the file is gone and \<^verbatim>\<open>load_log\<close> still returns the table
  it stored when the log was viewed.
\<close>

theorem viewer_parse_failure:
  "log_viewer1 empty_log_world =
     \<lparr>shown = [], raised = Some EmptyDataError, world_after = empty_log_world\<rparr> \<and>
   load_log_body LOG_PATH empty_log_world = None \<and>
   files viewed_then_cleared LOG_PATH = None \<and>
   fst (load_log LOG_PATH viewed_then_cleared) =
     Some \<lparr>columns = header_fields, index_fields = [[]],
           records = [noon_inputs_read @ [F64 (Fin 250)]]\<rparr>"
  by (simp add: log_viewer1_def load_log_body_def empty_log_world_def empty_world_def
      viewed_then_cleared_state load_log_def read_csv_empty)

section \<open>Clearing\<close>

lemma clear_block11_removes:
  "path_exists w LOG_PATH \<Longrightarrow> remove_ok w \<Longrightarrow>
   clear_block11 w = \<lparr>shown = [Success_cleared], raised = None,
                      world_after = w\<lparr>files := (files w)(LOG_PATH := None)\<rparr>\<rparr>"
  by (simp add: clear_block11_def os_remove_def path_exists_def)

lemma clear_block1_removes:
  "path_exists w LOG_PATH \<Longrightarrow> remove_ok w \<Longrightarrow>
   clear_block1 w = \<lparr>shown = [Success_cleared], raised = None,
                     world_after = w\<lparr>files := (files w)(LOG_PATH := None)\<rparr>\<rparr>"
  by (simp add: clear_block1_def os_remove_def path_exists_def)

lemma clear_block_absent:
  "\<not> path_exists w LOG_PATH \<Longrightarrow>
   clear_block11 w = \<lparr>shown = [Info_no_log_file], raised = None, world_after = w\<rparr> \<and>
   clear_block1 w = \<lparr>shown = [], raised = None, world_after = w\<rparr>"
  by (simp add: clear_block11_def clear_block1_def)

lemma clear_block_refused:
  "path_exists w LOG_PATH \<Longrightarrow> \<not> remove_ok w \<Longrightarrow>
   clear_block11 w = \<lparr>shown = [Warning_could_not_clear OSError], raised = None, world_after = w\<rparr> \<and>
   clear_block1 w = \<lparr>shown = [], raised = Some OSError, world_after = w\<rparr>"
  by (simp add: clear_block11_def clear_block1_def os_remove_def path_exists_def)

lemma cleared_file_gone:
  assumes "remove_ok w \<or> \<not> path_exists w LOG_PATH"
  shows "files (world_after (clear_block11 w)) LOG_PATH = None \<and>
         files (world_after (clear_block1 w)) LOG_PATH = None \<and>
         log_cache (world_after (clear_block11 w)) = log_cache w"
proof (cases "path_exists w LOG_PATH")
  case True
  with assms show ?thesis by (simp add: clear_block11_removes clear_block1_removes)
next
  case False
  then show ?thesis by (simp add: clear_block_absent path_exists_def)
qed

text \<open>
  C6, as amended. When the log file exists and the operating system allows its removal,
  the clear block of either script removes it and reports success. When the file does not
  exist the state is left as it is; stream11.py shows an informational message and
  stream1.py shows nothing. After a clear that was not refused, reading the file gives
  nothing: the body of \<^verbatim>\<open>load_log\<close> returns \<^verbatim>\<open>None\<close>, \<^verbatim>\<open>load_log\<close> itself does when
  nothing is stored for the path, and the viewer of stream1.py reports that nothing was
  logged.
\<close>

theorem clear_then_read:
  "(path_exists w LOG_PATH \<and> remove_ok w \<longrightarrow>
      clear_block11 w = \<lparr>shown = [Success_cleared], raised = None,
                         world_after = w\<lparr>files := (files w)(LOG_PATH := None)\<rparr>\<rparr> \<and>
      clear_block1 w = \<lparr>shown = [Success_cleared], raised = None,
                        world_after = w\<lparr>files := (files w)(LOG_PATH := None)\<rparr>\<rparr>) \<and>
   (\<not> path_exists w LOG_PATH \<longrightarrow>
      clear_block11 w = \<lparr>shown = [Info_no_log_file], raised = None, world_after = w\<rparr> \<and>
      clear_block1 w = \<lparr>shown = [], raised = None, world_after = w\<rparr>) \<and>
   (remove_ok w \<or> \<not> path_exists w LOG_PATH \<longrightarrow>
      load_log_body LOG_PATH (world_after (clear_block11 w)) = None \<and>
      (log_cache w LOG_PATH = None \<longrightarrow>
         fst (load_log LOG_PATH (world_after (clear_block11 w))) = None) \<and>
      shown (log_viewer1 (world_after (clear_block1 w))) = [Info_no_predictions])"
proof -
  have "load_log_body LOG_PATH (world_after (clear_block11 w)) = None \<and>
      (log_cache w LOG_PATH = None \<longrightarrow>
         fst (load_log LOG_PATH (world_after (clear_block11 w))) = None) \<and>
      shown (log_viewer1 (world_after (clear_block1 w))) = [Info_no_predictions]"
    if "remove_ok w \<or> \<not> path_exists w LOG_PATH"
    using cleared_file_gone [OF that]
    by (simp add: load_log_body_def load_log_def log_viewer1_def Let_def)
  then show ?thesis
    by (simp add: clear_block11_removes clear_block1_removes clear_block_absent)
qed

theorem clear_then_read_witness:
  "path_exists header_only_world LOG_PATH \<and> remove_ok header_only_world \<and>
   shown (clear_block11 header_only_world) = [Success_cleared] \<and>
   shown (clear_block1 header_only_world) = [Success_cleared] \<and>
   files (world_after (clear_block11 header_only_world)) LOG_PATH = None \<and>
   fst (load_log LOG_PATH (world_after (clear_block11 header_only_world))) = None \<and>
   \<not> path_exists empty_world LOG_PATH \<and>
   shown (clear_block11 empty_world) = [Info_no_log_file] \<and>
   shown (clear_block1 empty_world) = [] \<and>
   fst (load_log LOG_PATH (world_after (clear_block11 empty_world))) = None \<and>
   shown (log_viewer1 (world_after (clear_block1 empty_world))) = [Info_no_predictions]"
  using clear_then_read [of header_only_world] clear_then_read [of empty_world]
  by (simp add: header_only_world_simps empty_world_simps path_exists_def load_log_def
      load_log_body_def log_viewer1_def Let_def)

text \<open>
  C6 as stated fails in a state where the operating system refuses to remove the file:
  stream11.py shows the warning of its exception handler, stream1.py ends in the uncaught
  exception, the file stays, and reading it afterwards gives its table.
\<close>

theorem clear_refused_counterexample:
  "path_exists unremovable_world LOG_PATH \<and>
   log_cache unremovable_world LOG_PATH = None \<and>
   shown (clear_block11 unremovable_world) = [Warning_could_not_clear OSError] \<and>
   fst (load_log LOG_PATH (world_after (clear_block11 unremovable_world))) =
     Some \<lparr>columns = header_fields, index_fields = [], records = []\<rparr> \<and>
   raised (clear_block1 unremovable_world) = Some OSError \<and>
   shown (log_viewer1 (world_after (clear_block1 unremovable_world))) =
     [Dataframe \<lparr>columns = header_fields, index_fields = [], records = []\<rparr>,
      Download_button \<lparr>columns = header_fields, index_fields = [], records = []\<rparr>]"
proof -
  have p: "path_exists unremovable_world LOG_PATH" "\<not> remove_ok unremovable_world"
    by (simp_all add: unremovable_world_def header_only_world_def path_exists_def empty_world_def)
  show ?thesis
    unfolding clear_block_refused [OF p, THEN conjunct1] clear_block_refused [OF p, THEN conjunct2]
    by (simp add: unremovable_world_def header_only_world_def path_exists_def empty_world_def
        load_log_def load_log_body_def log_viewer1_def Let_def read_csv_header_only)
qed

section \<open>The cached session\<close>

lemma get_session_hit: "session_cache w path = Some s \<Longrightarrow> get_session path w = (Inr s, w)"
  by (simp add: get_session_def)

lemma get_session_stores:
  "get_session path w = (Inr s, w') \<Longrightarrow> session_cache w' path = Some s"
  by (auto simp: get_session_def inference_session_def split: option.splits)

lemma get_session_times_hit:
  "session_cache w path = Some s \<Longrightarrow> get_session_times n path w = (replicate n (Inr s), w)"
  by (induction n) (simp_all add: get_session_hit)

lemma same_sessions_refl: "same_sessions w w"
  by (simp add: same_sessions_def)

lemma same_sessions_trans: "same_sessions a b \<Longrightarrow> same_sessions b c \<Longrightarrow> same_sessions a c"
  by (simp add: same_sessions_def)

lemma predict_block11_sessions: "same_sessions w (world_after (predict_block11 sess i now w))"
  by (cases "write_ok w") (simp_all add: predict_block11_ok predict_block11_refused same_sessions_def)

lemma log_viewer11_sessions: "same_sessions w (world_after (log_viewer11 w))"
  by (simp add: log_viewer11_def load_log_def same_sessions_def Let_def
      split: option.splits prod.splits)

lemma clear_block11_sessions: "same_sessions w (world_after (clear_block11 w))"
  by (simp add: clear_block11_def os_remove_def same_sessions_def)

lemma then_run_sessions:
  assumes "same_sessions w (world_after a)" and "\<And>v. same_sessions v (world_after (f v))"
  shows "same_sessions w (world_after (then_run a f))"
proof (cases "raised a")
  case None
  then have "world_after (then_run a f) = world_after (f (world_after a))"
    by (simp add: then_run_def Let_def)
  with assms(1) assms(2) [of "world_after a"] show ?thesis
    by (simp add: same_sessions_def)
next
  case (Some e)
  with assms(1) show ?thesis by (simp add: then_run_def)
qed

lemma script11_sessions:
  assumes "session_cache w MODEL_PATH = Some s"
  shows "same_sessions w (world_after (script11 ev w))"
proof -
  have "same_sessions w (world_after (then_run
            (then_run
               (if pressed ev = Predict then predict_block11 s (sliders ev) (clock ev) w
                else nothing w)
               (\<lambda>v. if show_log ev then log_viewer11 v else nothing v))
            (\<lambda>v. if pressed ev = Clear then clear_block11 v else nothing v)))"
    by (intro then_run_sessions)
      (simp_all add: predict_block11_sessions log_viewer11_sessions clear_block11_sessions
        nothing_def same_sessions_refl)
  then show ?thesis by (simp add: script11_def get_session_hit [OF assms])
qed

lemma script11_keeps_session:
  assumes "session_cache w path = Some s"
  shows "session_cache (world_after (script11 ev w)) path = Some s"
proof (cases "get_session MODEL_PATH w")
  case (Pair r w1)
  have w1: "session_cache w1 path = Some s"
    using Pair assms
    by (auto simp: get_session_def inference_session_def split: option.splits)
  show ?thesis
  proof (cases r)
    case (Inl e)
    with Pair w1 show ?thesis by (simp add: script11_def)
  next
    case (Inr sess)
    have "same_sessions w1 (world_after (then_run
            (then_run
               (if pressed ev = Predict then predict_block11 sess (sliders ev) (clock ev) w1
                else nothing w1)
               (\<lambda>v. if show_log ev then log_viewer11 v else nothing v))
            (\<lambda>v. if pressed ev = Clear then clear_block11 v else nothing v)))"
      by (intro then_run_sessions)
        (simp_all add: predict_block11_sessions log_viewer11_sessions clear_block11_sessions
          nothing_def same_sessions_refl)
    with Pair Inr w1 show ?thesis by (simp add: script11_def same_sessions_def)
  qed
qed

text \<open>stream1.py loads the model file on every run.\<close>

lemma session1_reloads:
  "model_loads (snd (session1 w)) = model_loads w + 1 \<and>
   (\<forall>s. fst (session1 w) = Inr s \<longrightarrow> sid s = model_loads w)"
  by (auto simp: session1_def inference_session_def split: option.splits)

text \<open>
  C7. Once \<^verbatim>\<open>get_session\<close> has returned a session for a path, every further call with that
  path returns that same session and leaves the state as it is, so the model file is not
  loaded again; a run of the script keeps the stored session, and when the path is the
  script's model path a run loads nothing.
\<close>

theorem get_session_idempotent:
  assumes "get_session path w = (Inr s, w')"
  shows "get_session_times n path w' = (replicate n (Inr s), w') \<and>
         session_cache (world_after (script11 ev w')) path = Some s \<and>
         (path = MODEL_PATH \<longrightarrow> same_sessions w' (world_after (script11 ev w')))"
proof -
  have c: "session_cache w' path = Some s"
    by (rule get_session_stores [OF assms])
  show ?thesis
    using get_session_times_hit [OF c] script11_keeps_session [OF c] script11_sessions c
    by blast
qed

lemma get_session_model_world:
  "get_session MODEL_PATH model_world = (Inr (constant_session (Fin 250)), loaded_world)"
  by (simp add: get_session_def inference_session_def model_world_def empty_world_def
      loaded_world_def constant_session_def)

theorem get_session_idempotent_witness:
  "get_session MODEL_PATH model_world = (Inr (constant_session (Fin 250)), loaded_world) \<and>
   get_session_times (Suc (Suc (Suc 0))) MODEL_PATH loaded_world =
     ([Inr (constant_session (Fin 250)), Inr (constant_session (Fin 250)),
       Inr (constant_session (Fin 250))], loaded_world) \<and>
   model_loads loaded_world = 1 \<and>
   same_sessions loaded_world (world_after (script11
      \<lparr>pressed = Predict, show_log = True, sliders = default_inputs, clock = noon\<rparr> loaded_world))"
  using get_session_idempotent [OF get_session_model_world, of "Suc (Suc (Suc 0))"
      "\<lparr>pressed = Predict, show_log = True, sliders = default_inputs, clock = noon\<rparr>"]
  by (simp add: get_session_model_world loaded_world_def)

section \<open>A refused write\<close>

text \<open>
  C8, the scripts where the operating system refuses the write, with the default inputs and
  a raw output of 250. stream1.py shows the result and then ends in the uncaught
  \<^verbatim>\<open>OSError\<close>; no warning is shown. stream11.py shows the result and the warning and
  goes on. In both the file was opened once and the files are as before.
\<close>

theorem write_refused:
  "predict_block1 (constant_session (Fin 250)) default_inputs noon readonly_world =
     \<lparr>shown = [Result_markdown (Fin 250)], raised = Some OSError,
      world_after = readonly_world\<lparr>log_writes := 1\<rparr>\<rparr> \<and>
   predict_block11 (constant_session (Fin 250)) default_inputs noon readonly_world =
     \<lparr>shown = [Result_markdown (Fin 250), Warning_could_not_write OSError], raised = None,
      world_after = readonly_world\<lparr>log_writes := 1\<rparr>\<rparr>"
proof -
  have r: "\<not> write_ok readonly_world" "log_writes readonly_world = 0"
    by (simp_all add: readonly_world_def empty_world_def)
  show ?thesis
    by (simp add: predict_block1_refused [OF r(1)] predict_block11_refused [OF r(1)] r(2)
        predict_constant)
qed

lemma script_write_refused:
  "session_cache w MODEL_PATH = Some s \<Longrightarrow> \<not> write_ok w \<Longrightarrow> pressed ev = Predict \<Longrightarrow>
   raised (script11 ev w) = None \<and>
   hd (shown (script11 ev w)) = Result_markdown (as_float (predict11 s (sliders ev)))"
  by (simp add: script11_def get_session_hit predict_block11_refused then_run_def Let_def
      log_viewer11_never_raises nothing_def clear_block11_def)


lemma then_run_raised: "raised a = Some e \<Longrightarrow> then_run a f = a"
  by (simp add: then_run_def)

lemma script1_write_refused:
  assumes "model_files w MODEL_PATH = Some m" and "\<not> write_ok w" and "pressed ev = Predict"
  shows "raised (script1 ev w) = Some OSError \<and>
         shown (script1 ev w) =
           [Result_markdown (as_float (predict1 \<lparr>sid = model_loads w, run_model = m\<rparr> (sliders ev)))]"
proof -
  define v where "v = w\<lparr>model_loads := model_loads w + 1\<rparr>"
  define sess where "sess = \<lparr>sid = model_loads w, run_model = m\<rparr>"
  define a where "a = predict_block1 sess (sliders ev) (clock ev) v"
  have s: "session1 w = (Inr sess, v)"
    using assms(1) by (simp add: session1_def inference_session_def v_def sess_def)
  have "\<not> write_ok v" using assms(2) by (simp add: v_def)
  then have a: "raised a = Some OSError" "shown a = [Result_markdown (as_float (predict1 sess (sliders ev)))]"
    by (simp_all add: a_def predict_block1_refused)
  have "script1 ev w = then_run (then_run a (\<lambda>v. if show_log ev then log_viewer1 v else nothing v))
      (\<lambda>v. if pressed ev = Clear then clear_block1 v else nothing v)"
    by (simp add: script1_def s assms(3) a_def)
  also have "\<dots> = a"
    by (simp only: then_run_raised [OF a(1)])
  finally show ?thesis using a by (simp add: sess_def)
qed

section \<open>The two variants side by side\<close>

lemma clipped_same_value: "as_float (clipped_result1 x) = as_float (clipped_result11 x)"
  by (simp add: clipped_result1_cases clipped_result11_cases)

lemma numeric_log_row:
  "as_float c = as_float c' \<Longrightarrow>
   map numeric_cell (log_row t i c) = map numeric_cell (log_row t i c')"
  by (simp add: log_row_def)

lemma butlast_log_row:
  "butlast (log_row t i c) = butlast (log_row t i c') \<and>
   butlast (map pandas_field (log_row t i c)) = butlast (map csv_writer_field (log_row t i c'))"
  by (simp add: log_row_def)

text \<open>
  C9, as amended. For the same session, inputs and clock reading the two scripts compute
  predictions with the same numeric value and hand the writer rows that are the same in the
  timestamp and the six inputs and numerically equal in the prediction. When the write is
  allowed they show the same result, neither raises, and each appends its row as its own
  writer puts it, after the same earlier content: the rows in the file are the same in their
  first seven fields, and the last field is the text pandas gives the prediction of
  stream1.py in one file and the text \<^verbatim>\<open>csv.writer\<close> gives the prediction of stream11.py in
  the other.
\<close>

theorem variants_agree:
  "as_float (predict1 sess i) = as_float (predict11 sess i) \<and>
   map numeric_cell (request_row1 (sess, i, now)) =
     map numeric_cell (request_row11 (sess, i, now)) \<and>
   butlast (request_row1 (sess, i, now)) = butlast (request_row11 (sess, i, now)) \<and>
   butlast (map pandas_field (request_row1 (sess, i, now))) =
     butlast (map csv_writer_field (request_row11 (sess, i, now))) \<and>
   last (map pandas_field (request_row1 (sess, i, now))) = pandas_field (CNum (predict1 sess i)) \<and>
   last (map csv_writer_field (request_row11 (sess, i, now))) =
     csv_writer_field (CNum (predict11 sess i)) \<and>
   (write_ok w \<longrightarrow>
      shown (predict_block1 sess i now w) = shown (predict_block11 sess i now w) \<and>
      raised (predict_block1 sess i now w) = raised (predict_block11 sess i now w) \<and>
      files (world_after (predict_block1 sess i now w)) LOG_PATH =
        Some ((case files w LOG_PATH of None \<Rightarrow> [header_fields] | Some old \<Rightarrow> old) @
              [map pandas_field (request_row1 (sess, i, now))]) \<and>
      files (world_after (predict_block11 sess i now w)) LOG_PATH =
        Some ((case files w LOG_PATH of None \<Rightarrow> [header_fields] | Some old \<Rightarrow> old) @
              [map csv_writer_field (request_row11 (sess, i, now))]))"
proof -
  have v: "as_float (predict1 sess i) = as_float (predict11 sess i)"
    by (simp add: predict1_def predict11_def clipped_same_value)
  have n: "map numeric_cell (request_row1 (sess, i, now)) =
      map numeric_cell (request_row11 (sess, i, now))"
    unfolding request_row1_eq request_row11_eq by (rule numeric_log_row [OF v])
  have b: "butlast (request_row1 (sess, i, now)) = butlast (request_row11 (sess, i, now))"
    "butlast (map pandas_field (request_row1 (sess, i, now))) =
     butlast (map csv_writer_field (request_row11 (sess, i, now)))"
    unfolding request_row1_eq request_row11_eq using butlast_log_row by blast+
  have l: "last (map pandas_field (request_row1 (sess, i, now))) =
      pandas_field (CNum (predict1 sess i))"
    "last (map csv_writer_field (request_row11 (sess, i, now))) =
      csv_writer_field (CNum (predict11 sess i))"
    by (simp_all add: request_row1_eq request_row11_eq log_row_def)
  have w: "shown (predict_block1 sess i now w) = shown (predict_block11 sess i now w) \<and>
      raised (predict_block1 sess i now w) = raised (predict_block11 sess i now w) \<and>
      files (world_after (predict_block1 sess i now w)) LOG_PATH =
        Some ((case files w LOG_PATH of None \<Rightarrow> [header_fields] | Some old \<Rightarrow> old) @
              [map pandas_field (request_row1 (sess, i, now))]) \<and>
      files (world_after (predict_block11 sess i now w)) LOG_PATH =
        Some ((case files w LOG_PATH of None \<Rightarrow> [header_fields] | Some old \<Rightarrow> old) @
              [map csv_writer_field (request_row11 (sess, i, now))])"
    if "write_ok w"
    using that v by (simp add: predict_block1_ok predict_block11_ok request_row1_eq
        request_row11_eq)
  show ?thesis using v n b l w by blast
qed

theorem variants_agree_witness:
  "write_ok empty_world \<and>
   as_float (predict1 (constant_session (Fin 250)) default_inputs) = Fin 250 \<and>
   as_float (predict11 (constant_session (Fin 250)) default_inputs) = Fin 250 \<and>
   shown (predict_block1 (constant_session (Fin 250)) default_inputs noon empty_world) =
     [Result_markdown (Fin 250)] \<and>
   shown (predict_block11 (constant_session (Fin 250)) default_inputs noon empty_world) =
     [Result_markdown (Fin 250)] \<and>
   files (world_after (predict_block1 (constant_session (Fin 250)) default_inputs noon
      empty_world)) LOG_PATH = Some [header_fields, noon_inputs_fields @ [Float32_text 250]] \<and>
   files (world_after (predict_block11 (constant_session (Fin 250)) default_inputs noon
      empty_world)) LOG_PATH = Some [header_fields, noon_inputs_fields @ [Float64_text 250]]"
proof -
  note a = variants_agree [of "constant_session (Fin 250)" default_inputs noon empty_world]
  have r: "map pandas_field (request_row1 (constant_session (Fin 250), default_inputs, noon)) =
      noon_inputs_fields @ [Float32_text 250]"
    "map csv_writer_field (request_row11 (constant_session (Fin 250), default_inputs, noon)) =
      noon_inputs_fields @ [Float64_text 250]"
    by (simp_all add: request_row1_eq request_row11_eq timestamp_noon predict_constant
        noon_row_written)
  have "shown (predict_block1 (constant_session (Fin 250)) default_inputs noon empty_world) =
      shown (predict_block11 (constant_session (Fin 250)) default_inputs noon empty_world) \<and>
    files (world_after (predict_block1 (constant_session (Fin 250)) default_inputs noon
      empty_world)) LOG_PATH = Some [header_fields, noon_inputs_fields @ [Float32_text 250]] \<and>
    files (world_after (predict_block11 (constant_session (Fin 250)) default_inputs noon
      empty_world)) LOG_PATH = Some [header_fields, noon_inputs_fields @ [Float64_text 250]]"
    using a by (simp add: empty_world_simps r)
  then show ?thesis
    by (simp add: empty_world_simps predict_constant predict_block11_ok)
qed

lemma field_predicted_mw: "field ''Predicted MW'' (log_row t i c) = Some (CNum c)"
  by (simp add: field_def header_row_def log_row_def)

text \<open>
  C9 as stated fails. For a raw output of 310 the clamp acts: stream1.py appends a row that
  ends in the integer's text \<^verbatim>\<open>290\<close>, stream11.py a row that ends in the text of the float
  290.0. For a raw output of NaN stream1.py appends a row that ends in an empty field and
  stream11.py a row that ends in \<^verbatim>\<open>nan\<close>, so that the two lines differ whatever the texts
  of the finite floats are.
\<close>

theorem variants_differ_counterexample:
  "files (world_after (predict_block1 (constant_session (Fin 310)) default_inputs noon
      empty_world)) LOG_PATH = Some [header_fields, noon_inputs_fields @ [Chars ''290'']] \<and>
   files (world_after (predict_block11 (constant_session (Fin 310)) default_inputs noon
      empty_world)) LOG_PATH = Some [header_fields, noon_inputs_fields @ [Float64_text 290]] \<and>
   files (world_after (predict_block1 (constant_session NaN) default_inputs noon
      empty_world)) LOG_PATH = Some [header_fields, noon_inputs_fields @ [Chars []]] \<and>
   files (world_after (predict_block11 (constant_session NaN) default_inputs noon
      empty_world)) LOG_PATH = Some [header_fields, noon_inputs_fields @ [Chars ''nan'']] \<and>
   csv_line (\<lambda>x. ''850.0'') (\<lambda>x. []) (noon_inputs_fields @ [Chars []]) \<noteq>
   csv_line (\<lambda>x. ''850.0'') (\<lambda>x. []) (noon_inputs_fields @ [Chars ''nan''])"
proof -
  have s290: "str_int 290 = ''290''"
    by (simp add: str_int_def str_nat_large str_nat_small digit_char_def)
  show ?thesis
    by (simp add: predict_block1_ok predict_block11_ok empty_world_simps timestamp_noon
        predict_constant noon_row_written s290 csv_line_def noon_inputs_fields_def)
qed

section \<open>What reaches the log\<close>

lemma request_rows_in_range:
  "\<forall>q\<in>set qs. run_model (fst q) (fst (snd q)) \<noteq> NaN \<Longrightarrow>
   list_all (\<lambda>r. cell_in_range (field ''Predicted MW'' r)) (map request_row11 qs) \<and>
   list_all (\<lambda>r. cell_in_range (field ''Predicted MW'' r)) (map request_row1 qs)"
proof (induction qs)
  case Nil
  show ?case by simp
next
  case (Cons q qs)
  obtain sess i now where q: "q = (sess, i, now)" by (cases q) auto
  have "run_model sess i \<noteq> NaN" using Cons.prems q by simp
  then have "in_range (predict1 sess i) \<and> in_range (predict11 sess i)"
    unfolding predict1_def predict11_def by (rule clipped_in_range)
  moreover have "\<forall>q\<in>set qs. run_model (fst q) (fst (snd q)) \<noteq> NaN"
    using Cons.prems by simp
  ultimately show ?case
    using Cons.IH by (simp add: q request_row1_eq request_row11_eq field_predicted_mw)
qed

text \<open>
  C10, as amended. When the write is allowed, the record appended by a prediction is the
  writer's text of a row that holds in the column Predicted MW the very number whose float
  value is shown on the page. Starting without a log file, after one or more predictions
  none of whose raw outputs is NaN, every record of the log was written from a row whose
  Predicted MW is between 140 and 290.
\<close>

theorem logged_value_is_shown:
  "(write_ok w \<longrightarrow>
      shown (predict_block11 sess i now w) = [Result_markdown (as_float (predict11 sess i))] \<and>
      files (world_after (predict_block11 sess i now w)) LOG_PATH =
        Some ((case files w LOG_PATH of None \<Rightarrow> [header_fields] | Some old \<Rightarrow> old) @
              [map csv_writer_field (request_row11 (sess, i, now))]) \<and>
      shown (predict_block1 sess i now w) = [Result_markdown (as_float (predict1 sess i))] \<and>
      files (world_after (predict_block1 sess i now w)) LOG_PATH =
        Some ((case files w LOG_PATH of None \<Rightarrow> [header_fields] | Some old \<Rightarrow> old) @
              [map pandas_field (request_row1 (sess, i, now))])) \<and>
   field ''Predicted MW'' (request_row11 (sess, i, now)) = Some (CNum (predict11 sess i)) \<and>
   field ''Predicted MW'' (request_row1 (sess, i, now)) = Some (CNum (predict1 sess i)) \<and>
   last (map csv_writer_field (request_row11 (sess, i, now))) =
     csv_writer_field (CNum (predict11 sess i)) \<and>
   last (map pandas_field (request_row1 (sess, i, now))) = pandas_field (CNum (predict1 sess i)) \<and>
   (write_ok w \<and> files w LOG_PATH = None \<and> qs \<noteq> [] \<and>
    (\<forall>q\<in>set qs. run_model (fst q) (fst (snd q)) \<noteq> NaN) \<longrightarrow>
      files (predictions11 qs w) LOG_PATH =
        Some (header_fields # map (\<lambda>q. map csv_writer_field (request_row11 q)) qs) \<and>
      list_all (\<lambda>r. cell_in_range (field ''Predicted MW'' r)) (map request_row11 qs) \<and>
      files (predictions1 qs w) LOG_PATH =
        Some (header_fields # map (\<lambda>q. map pandas_field (request_row1 q)) qs) \<and>
      list_all (\<lambda>r. cell_in_range (field ''Predicted MW'' r)) (map request_row1 qs))"
proof -
  have seq: "files (predictions11 qs w) LOG_PATH =
        Some (header_fields # map (\<lambda>q. map csv_writer_field (request_row11 q)) qs) \<and>
      list_all (\<lambda>r. cell_in_range (field ''Predicted MW'' r)) (map request_row11 qs) \<and>
      files (predictions1 qs w) LOG_PATH =
        Some (header_fields # map (\<lambda>q. map pandas_field (request_row1 q)) qs) \<and>
      list_all (\<lambda>r. cell_in_range (field ''Predicted MW'' r)) (map request_row1 qs)"
    if "write_ok w" "files w LOG_PATH = None" "qs \<noteq> []"
      "\<forall>q\<in>set qs. run_model (fst q) (fst (snd q)) \<noteq> NaN"
    using predictions11_creates [OF that(1,2,3)] predictions1_creates [OF that(1,2,3)]
      request_rows_in_range [OF that(4)] by simp
  have one: "field ''Predicted MW'' (request_row11 (sess, i, now)) = Some (CNum (predict11 sess i)) \<and>
      field ''Predicted MW'' (request_row1 (sess, i, now)) = Some (CNum (predict1 sess i)) \<and>
      last (map csv_writer_field (request_row11 (sess, i, now))) =
        csv_writer_field (CNum (predict11 sess i)) \<and>
      last (map pandas_field (request_row1 (sess, i, now))) =
        pandas_field (CNum (predict1 sess i))"
    by (simp add: request_row1_eq request_row11_eq field_predicted_mw) (simp add: log_row_def)
  have blocks: "shown (predict_block11 sess i now w) = [Result_markdown (as_float (predict11 sess i))] \<and>
      files (world_after (predict_block11 sess i now w)) LOG_PATH =
        Some ((case files w LOG_PATH of None \<Rightarrow> [header_fields] | Some old \<Rightarrow> old) @
              [map csv_writer_field (request_row11 (sess, i, now))]) \<and>
      shown (predict_block1 sess i now w) = [Result_markdown (as_float (predict1 sess i))] \<and>
      files (world_after (predict_block1 sess i now w)) LOG_PATH =
        Some ((case files w LOG_PATH of None \<Rightarrow> [header_fields] | Some old \<Rightarrow> old) @
              [map pandas_field (request_row1 (sess, i, now))])"
    if "write_ok w"
    using that by (simp add: predict_block11_ok predict_block1_ok request_row1_eq request_row11_eq)
  from seq one blocks show ?thesis by blast
qed

lemma two_requests_written:
  "map (\<lambda>q. map csv_writer_field (request_row11 q)) two_requests =
     [noon_inputs_fields @ [Float64_text 250], noon_inputs_fields @ [Float64_text 290]]"
  by (simp add: two_requests_def request_row11_eq timestamp_noon predict_constant
      noon_row_written)

theorem logged_value_is_shown_witness:
  "write_ok empty_world \<and> files empty_world LOG_PATH = None \<and> two_requests \<noteq> [] \<and>
   list_all (\<lambda>q. run_model (fst q) (fst (snd q)) \<noteq> NaN) two_requests \<and>
   files (predictions11 two_requests empty_world) LOG_PATH =
     Some [header_fields, noon_inputs_fields @ [Float64_text 250],
           noon_inputs_fields @ [Float64_text 290]] \<and>
   list_all (\<lambda>r. cell_in_range (field ''Predicted MW'' r)) (map request_row11 two_requests) \<and>
   shown (predict_block11 (constant_session (Fin 310)) default_inputs noon empty_world) =
     [Result_markdown (Fin 290)] \<and>
   field ''Predicted MW'' (request_row11 (constant_session (Fin 310), default_inputs, noon)) =
     Some (CNum (PyFloat (Fin 290)))"
proof -
  have h: "two_requests \<noteq> []" "\<forall>q\<in>set two_requests. run_model (fst q) (fst (snd q)) \<noteq> NaN"
    by (simp_all add: two_requests_def constant_session_def)
  from logged_value_is_shown [of empty_world "constant_session (Fin 310)" default_inputs noon
      two_requests] h
  show ?thesis
    by (simp add: empty_world_simps two_requests_written predict_constant list_all_iff)
qed

text \<open>
  C10 as stated fails for a model whose raw output is NaN: the value shown and the value
  handed to the writer for the column Predicted MW are both NaN, which is not between 140
  and 290; stream11.py writes it as \<^verbatim>\<open>nan\<close> and stream1.py as an empty field.
\<close>

theorem logged_nan_counterexample:
  "shown (predict_block11 (constant_session NaN) default_inputs noon empty_world) =
     [Result_markdown NaN] \<and>
   files (world_after (predict_block11 (constant_session NaN) default_inputs noon empty_world))
      LOG_PATH = Some [header_fields, noon_inputs_fields @ [Chars ''nan'']] \<and>
   files (world_after (predict_block1 (constant_session NaN) default_inputs noon empty_world))
      LOG_PATH = Some [header_fields, noon_inputs_fields @ [Chars []]] \<and>
   field ''Predicted MW'' (request_row11 (constant_session NaN, default_inputs, noon)) =
     Some (CNum (PyFloat NaN)) \<and>
   \<not> cell_in_range (field ''Predicted MW''
        (request_row11 (constant_session NaN, default_inputs, noon))) \<and>
   \<not> cell_in_range (field ''Predicted MW''
        (request_row1 (constant_session NaN, default_inputs, noon)))"
  by (simp add: predict_block11_ok predict_block1_ok empty_world_simps request_row11_eq
      request_row1_eq field_predicted_mw predict_constant in_range_def timestamp_noon
      noon_row_written)

section \<open>Other files\<close>

text \<open>
  Three files that no script writes: only blank lines; a single record longer than the
  header, whose first field becomes the row label; and a later record longer than the first.
\<close>

lemma read_blank_lines: "read_csv [[], []] = Inl EmptyDataError"
  by (simp add: read_csv_def)

lemma classify_small_ints:
  "classify_chars ''1'' = PInt 1" "classify_chars ''2'' = PInt 2" "classify_chars ''3'' = PInt 3"
  using classify_str_int [of 1] classify_str_int [of 2] classify_str_int [of 3]
  by (simp_all add: str_int_def str_nat_small digit_char_def)

lemma read_longer_record:
  "read_csv [[Chars ''a'', Chars ''b''], [Chars ''1'', Chars ''2'', Chars ''3'']] =
     Inr \<lparr>columns = [Chars ''a'', Chars ''b''], index_fields = [[Chars ''1'']],
          records = [[I64 2, I64 3]]\<rparr>"
proof -
  have u: "[0..<2] = [0, 1::nat]" by code_simp
  show ?thesis
    by (simp add: read_csv_def fill_record_def dtypes_def u col_dtype_def classify_small_ints
        Let_def)
qed

lemma read_later_record_too_long:
  "read_csv [[Chars ''a'', Chars ''b''], [Chars ''1'', Chars ''2''],
             [Chars ''1'', Chars ''2'', Chars ''3'']] = Inl ParserError"
  by (simp add: read_csv_def)

end
